theory Spec2Isabelle
  imports Main
begin

section \<open>Images to R2: a shallow embedding of the plugin\<close>

text \<open>
  The plugin is TypeScript running on one event loop. Its functions are embedded as HOL
  functions over explicit state. Strings are HOL strings: a character of the model is
  one code unit of the JavaScript string, and the model covers the code units below 256.
  What the host application and the network answer is not part of the plugin: every
  such answer is a parameter of the function that asks for it, and a thrown
  \<^verbatim>\<open>Error\<close> is the left injection of a sum, carrying its message. An asynchronous
  function is run to its end in one step: what other handlers could do at its
  \<^verbatim>\<open>await\<close>s is not modelled.
\<close>

subsection \<open>Settings (settings.ts)\<close>

record ImagesR2Settings =
  accountId :: string
  r2Token :: string
  bucketName :: string
  customDomain :: string
  downloadFolder :: string

definition DEFAULT_SETTINGS :: ImagesR2Settings where
  "DEFAULT_SETTINGS =
     \<lparr>accountId = '''', r2Token = '''', bucketName = '''', customDomain = '''',
      downloadFolder = ''''\<rparr>"

subsection \<open>Files of the vault and HTTP requests\<close>

record TFile =
  path :: string
  name :: string
  extension :: string
  parentPath :: "string option"

text \<open>
  A request of \<^verbatim>\<open>requestUrl\<close>. All requests of the plugin are made with
  \<^verbatim>\<open>throw: false\<close>, so a status outside 2xx is an answer, not an exception.
\<close>

record request =
  reqUrl :: string
  reqMethod :: string
  reqAuthorization :: "string option"
  reqContentType :: "string option"
  reqBody :: "string option"

text \<open>
  The fields of a JSON body that the plugin reads, each through optional chaining:
  \<^verbatim>\<open>json?.success\<close> (its truthiness), \<^verbatim>\<open>json?.errors?.[0]?.message\<close> and
  \<^verbatim>\<open>json?.result?.domain\<close>. A body \<^verbatim>\<open>null\<close> reads as all three absent.
\<close>

record json_body =
  success :: bool
  firstErrorMessage :: "string option"
  resultDomain :: "string option"

text \<open>
  An answer: \<open>respJson\<close> is \<open>None\<close> when the getter \<^verbatim>\<open>response.json\<close> throws (the body
  is not JSON).
\<close>

record response =
  respStatus :: nat
  respJson :: "json_body option"
  respArrayBuffer :: string

text \<open>The network: an answer, or a thrown error with its message.\<close>

type_synonym network = "request \<Rightarrow> string + response"

subsection \<open>The public base URL (main.ts)\<close>

definition managedDomainRequest :: "string \<Rightarrow> string \<Rightarrow> string \<Rightarrow> request" where
  "managedDomainRequest acc tok bucket =
     \<lparr>reqUrl = ''https://api.cloudflare.com/client/v4/accounts/'' @ acc @ ''/r2/buckets/''
              @ bucket @ ''/domains/managed'',
      reqMethod = ''GET'',
      reqAuthorization = Some (''Bearer '' @ tok),
      reqContentType = None,
      reqBody = None\<rparr>"

text \<open>
  \<^verbatim>\<open>fetchManagedDomain\<close>: one request; \<open>None\<close> on a thrown error, a status other than
  200, a body that is not JSON, and a domain that is absent or empty (JavaScript's
  falsy test \<^verbatim>\<open>domain ? ... : null\<close>). The second component is the list of requests
  that were sent.
\<close>

definition fetchManagedDomain ::
  "network \<Rightarrow> string \<Rightarrow> string \<Rightarrow> string \<Rightarrow> string option \<times> request list" where
  "fetchManagedDomain net acc tok bucket =
     (let req = managedDomainRequest acc tok bucket in
      (case net req of
         Inl err \<Rightarrow> None
       | Inr resp \<Rightarrow>
           if respStatus resp \<noteq> 200 then None
           else (case respJson resp of
                   None \<Rightarrow> None
                 | Some j \<Rightarrow>
                     (case resultDomain j of
                        None \<Rightarrow> None
                      | Some d \<Rightarrow> if d = [] then None else Some (''https://'' @ d))),
       [req]))"

definition resolveBaseUrl ::
  "ImagesR2Settings \<Rightarrow> network \<Rightarrow> string option \<times> request list" where
  "resolveBaseUrl s net =
     (if customDomain s \<noteq> [] then (Some (customDomain s), [])
      else if accountId s = [] \<or> r2Token s = [] \<or> bucketName s = [] then (None, [])
      else fetchManagedDomain net (accountId s) (r2Token s) (bucketName s))"

text \<open>
  The managed-domain query fails, in the words of the specification: a network error, a
  status other than 200, or no domain in the body (none readable, or an empty one).
\<close>

definition managedQueryFails :: "string + response \<Rightarrow> bool" where
  "managedQueryFails ans =
     (case ans of
        Inl err \<Rightarrow> True
      | Inr resp \<Rightarrow>
          respStatus resp \<noteq> 200 \<or>
          (case respJson resp of
             None \<Rightarrow> True
           | Some j \<Rightarrow> resultDomain j = None \<or> resultDomain j = Some []))"

subsection \<open>String built-ins of JavaScript\<close>

text \<open>\<^verbatim>\<open>s.startsWith(p)\<close>.\<close>

definition startsWith :: "string \<Rightarrow> string \<Rightarrow> bool" where
  "startsWith s p = (take (length p) s = p)"

text \<open>
  \<^verbatim>\<open>s.split(sep)\<close> for a string separator: the pieces between the occurrences of
  \<open>sep\<close>, found from the left and not overlapping; an empty separator splits into
  single characters. \<open>cur\<close> holds the piece being read, reversed.
\<close>

function splitFrom :: "string \<Rightarrow> string \<Rightarrow> string \<Rightarrow> string list" where
  "splitFrom sep cur [] = [rev cur]"
| "splitFrom sep cur (c # cs) =
     (if sep \<noteq> [] \<and> take (length sep) (c # cs) = sep
      then rev cur # splitFrom sep [] (drop (length sep) (c # cs))
      else splitFrom sep (c # cur) cs)"
  by pat_completeness auto
termination
  by (relation "measure (\<lambda>(sep, cur, s). length s)") auto

definition split :: "string \<Rightarrow> string \<Rightarrow> string list" where
  "split s sep = (if sep = [] then map (\<lambda>c. [c]) s else splitFrom sep [] s)"

text \<open>\<^verbatim>\<open>xs.join(sep)\<close>.\<close>

fun join :: "string list \<Rightarrow> string \<Rightarrow> string" where
  "join [] sep = []"
| "join [x] sep = x"
| "join (x # y # ys) sep = x @ sep @ join (y # ys) sep"

text \<open>\<^verbatim>\<open>s.lastIndexOf(c)\<close> for one character: the last position of \<open>c\<close>, or \<open>-1\<close>.\<close>

fun lastIndexFrom :: "char \<Rightarrow> nat \<Rightarrow> int \<Rightarrow> string \<Rightarrow> int" where
  "lastIndexFrom c i found [] = found"
| "lastIndexFrom c i found (d # ds) =
     lastIndexFrom c (Suc i) (if d = c then int i else found) ds"

definition lastIndexOf :: "string \<Rightarrow> char \<Rightarrow> int" where
  "lastIndexOf s c = lastIndexFrom c 0 (- 1) s"

text \<open>A number in decimal, as a template literal prints it.\<close>

definition digitChar :: "nat \<Rightarrow> char" where
  "digitChar d = ''0123456789'' ! d"

function decimal :: "nat \<Rightarrow> string" where
  "decimal n = (if n < 10 then [digitChar n] else decimal (n div 10) @ [digitChar (n mod 10)])"
  by pat_completeness auto
termination
  by (relation "measure id") auto

text \<open>
  \<^verbatim>\<open>encodeURIComponent\<close>: letters, digits and \<^verbatim>\<open>-_.!~*'()\<close> stay; every other
  character becomes the bytes of its UTF-8 encoding, each as \<^verbatim>\<open>%\<close> and two upper-case
  hexadecimal digits. A code unit below 128 is one byte, one from 128 to 255 is two.
\<close>

definition uriUnreserved :: "char list" where
  "uriUnreserved =
     ''ABCDEFGHIJKLMNOPQRSTUVWXYZabcdefghijklmnopqrstuvwxyz0123456789-_.!~*()'' @ [CHR 0x27]"

definition hexDigit :: "nat \<Rightarrow> char" where
  "hexDigit d = ''0123456789ABCDEF'' ! d"

definition percentByte :: "nat \<Rightarrow> string" where
  "percentByte b = [CHR ''%'', hexDigit (b div 16), hexDigit (b mod 16)]"

definition percentEncode :: "char \<Rightarrow> string" where
  "percentEncode c =
     (if c \<in> set uriUnreserved then [c]
      else (let n = (of_char c :: nat)
            in if n < 128 then percentByte n
               else percentByte (192 + n div 64) @ percentByte (128 + n mod 64)))"

definition encodeURIComponent :: "string \<Rightarrow> string" where
  "encodeURIComponent s = concat (map percentEncode s)"

text \<open>
  Upper case as the flag \<^verbatim>\<open>i\<close> of a regular expression takes it, on code units below
  256: the letters of ASCII and of Latin-1. The upper case of U+00B5 and of U+00FF lies
  beyond 255 and is the upper case of no other code unit below 256, so these two stand
  for it; U+00DF has none of one code unit.
\<close>

definition upperChar :: "char \<Rightarrow> char" where
  "upperChar c =
     (let n = (of_char c :: nat)
      in if (97 \<le> n \<and> n \<le> 122) \<or> (224 \<le> n \<and> n \<le> 254 \<and> n \<noteq> 247)
         then char_of (n - 32) else c)"

text \<open>\<^verbatim>\<open>s.toLowerCase()\<close> on code units below 256.\<close>

definition lowerChar :: "char \<Rightarrow> char" where
  "lowerChar c =
     (let n = (of_char c :: nat)
      in if (65 \<le> n \<and> n \<le> 90) \<or> (192 \<le> n \<and> n \<le> 222 \<and> n \<noteq> 215)
         then char_of (n + 32) else c)"

definition toLowerCase :: "string \<Rightarrow> string" where
  "toLowerCase s = map lowerChar s"

subsection \<open>Regular expressions\<close>

text \<open>
  The fragment of JavaScript's regular expressions that the plugin's three patterns use,
  all with the flag \<^verbatim>\<open>i\<close>: literal characters, negated character classes (with or
  without \<^verbatim>\<open>\s\<close>), the quantifiers \<^verbatim>\<open>?\<close>, \<^verbatim>\<open>*\<close> and \<^verbatim>\<open>+\<close> on one character,
  sequence, alternation and numbered capture groups.
\<close>

datatype atom = Lit char | NoneOf "char list" | NoneOfOrSpace "char list"

datatype regex =
    Eps
  | One atom
  | Opt atom
  | Star atom
  | Plus atom
  | Cat regex regex
  | Alt regex regex
  | Grp nat regex

text \<open>
  \<^verbatim>\<open>\s\<close> on code units below 256: tab, line feed, vertical tab, form feed, carriage
  return, space and the no-break space U+00A0.
\<close>

definition isSpace :: "char \<Rightarrow> bool" where
  "isSpace c =
     (c \<in> set [CHR 0x09, CHR 0x0A, CHR 0x0B, CHR 0x0C, CHR 0x0D, CHR 0x20, CHR 0xA0])"

text \<open>Under the flag \<^verbatim>\<open>i\<close>, characters are compared after upper-casing.\<close>

fun accepts :: "atom \<Rightarrow> char \<Rightarrow> bool" where
  "accepts (Lit c) d = (upperChar c = upperChar d)"
| "accepts (NoneOf cs) d = (upperChar d \<notin> set (map upperChar cs))"
| "accepts (NoneOfOrSpace cs) d = (upperChar d \<notin> set (map upperChar cs) \<and> \<not> isSpace d)"

type_synonym captures = "(nat \<times> string) list"

text \<open>
  Backtracking as a list of successes: every way the pattern matches a prefix of the
  input, as the rest of the input and the captures, in the order in which a
  backtracking matcher tries them (a greedy quantifier tries the longest run first, an
  alternation its left branch first). The head of the list is the match that
  \<^verbatim>\<open>exec\<close> reports.
\<close>

fun rmatch :: "regex \<Rightarrow> string \<Rightarrow> captures \<Rightarrow> (string \<times> captures) list" where
  "rmatch Eps s caps = [(s, caps)]"
| "rmatch (One a) s caps =
     (case s of [] \<Rightarrow> [] | c # cs \<Rightarrow> if accepts a c then [(cs, caps)] else [])"
| "rmatch (Opt a) s caps =
     (case s of [] \<Rightarrow> [] | c # cs \<Rightarrow> if accepts a c then [(cs, caps)] else []) @ [(s, caps)]"
| "rmatch (Star a) s caps =
     map (\<lambda>k. (drop k s, caps)) (rev [0 ..< Suc (length (takeWhile (accepts a) s))])"
| "rmatch (Plus a) s caps =
     map (\<lambda>k. (drop k s, caps)) (rev [1 ..< Suc (length (takeWhile (accepts a) s))])"
| "rmatch (Cat r1 r2) s caps =
     concat (map (\<lambda>(s', caps'). rmatch r2 s' caps') (rmatch r1 s caps))"
| "rmatch (Alt r1 r2) s caps = rmatch r1 s caps @ rmatch r2 s caps"
| "rmatch (Grp n r) s caps =
     map (\<lambda>(s', caps'). (s', (n, take (length s - length s') s) # caps')) (rmatch r s caps)"

text \<open>
  One element of \<^verbatim>\<open>content.matchAll(regex)\<close>: \<open>index\<close> is \<^verbatim>\<open>m.index\<close>, \<open>matched\<close> is
  \<^verbatim>\<open>m[0]\<close>, and \<open>group m n\<close> is \<^verbatim>\<open>m[n] ?? ''\<close>.
\<close>

record RegExpMatch =
  index :: nat
  matched :: string
  groups :: captures

definition group :: "RegExpMatch \<Rightarrow> nat \<Rightarrow> string" where
  "group m n = (case map_of (groups m) n of Some g \<Rightarrow> g | None \<Rightarrow> [])"

text \<open>
  \<^verbatim>\<open>matchAll\<close> with the flag \<^verbatim>\<open>g\<close>: the matcher is tried at each position from the
  left; after a match the search goes on behind it (one character further after an
  empty match).
\<close>

function matchAllFrom :: "regex \<Rightarrow> nat \<Rightarrow> string \<Rightarrow> RegExpMatch list" where
  "matchAllFrom r i s =
     (case rmatch r s [] of
        [] \<Rightarrow> (case s of [] \<Rightarrow> [] | c # cs \<Rightarrow> matchAllFrom r (Suc i) cs)
      | (rest, caps) # others \<Rightarrow>
          \<lparr>index = i, matched = take (length s - length rest) s, groups = caps\<rparr> #
          (if s = [] then []
           else matchAllFrom r (i + max 1 (length s - length rest))
                  (drop (max 1 (length s - length rest)) s)))"
  by pat_completeness auto
termination
  by (relation "measure (\<lambda>(r, i, s). length s)") auto

definition matchAll :: "string \<Rightarrow> regex \<Rightarrow> RegExpMatch list" where
  "matchAll content r = matchAllFrom r 0 content"

text \<open>\<^verbatim>\<open>regex.test(s)\<close> without the flag \<^verbatim>\<open>g\<close>: some position of \<open>s\<close> matches.\<close>

fun test :: "regex \<Rightarrow> string \<Rightarrow> bool" where
  "test r [] = (rmatch r [] [] \<noteq> [])"
| "test r (c # cs) = (rmatch r (c # cs) [] \<noteq> [] \<or> test r cs)"

text \<open>A literal string, and an alternation of literal strings.\<close>

fun lits :: "string \<Rightarrow> regex" where
  "lits [] = Eps"
| "lits (c # cs) = Cat (One (Lit c)) (lits cs)"

fun alts :: "string list \<Rightarrow> regex" where
  "alts [] = Eps"
| "alts [x] = lits x"
| "alts (x # y # ys) = Alt (lits x) (alts (y # ys))"

text \<open>
  \<^verbatim>\<open>/!\[\[([^\]]+\.(png|jpg|jpeg|gif|webp|svg|bmp|ico|tiff|tif))\]\]/gi\<close>
\<close>

definition localRegex :: regex where
  "localRegex =
     Cat (lits ''![['')
       (Cat (Grp 1 (Cat (Plus (NoneOf '']''))
                     (Cat (One (Lit CHR ''.''))
                        (Grp 2 (alts [''png'', ''jpg'', ''jpeg'', ''gif'', ''webp'', ''svg'',
                                      ''bmp'', ''ico'', ''tiff'', ''tif''])))))
          (lits '']]''))"

text \<open>
  \<^verbatim>\<open>/!\[([^\]]*)\]\((https?:\/\/[^)\s]+)\)/gi\<close>
\<close>

definition remoteRegex :: regex where
  "remoteRegex =
     Cat (lits ''!['')
       (Cat (Grp 1 (Star (NoneOf '']'')))
          (Cat (lits ''](''  )
             (Cat (Grp 2 (Cat (lits ''http'')
                            (Cat (Opt (Lit CHR ''s''))
                               (Cat (lits ''://'') (Plus (NoneOfOrSpace '')''))))))
                (lits '')''))))"

text \<open>
  \<^verbatim>\<open>/https?:\/\/[^/]+\.r2\.dev\//i\<close>
\<close>

definition r2DevRegex :: regex where
  "r2DevRegex =
     Cat (lits ''http'')
       (Cat (Opt (Lit CHR ''s''))
          (Cat (lits ''://'')
             (Cat (Plus (NoneOf ''/'')) (lits ''.r2.dev/''))))"

subsection \<open>Tracked items (view.ts) and transfer records (records.ts)\<close>

text \<open>The status \<^verbatim>\<open>'idle' | 'uploading' | 'done' | 'failed'\<close>.\<close>

datatype ItemStatus = Idle | Uploading | Done | Failed

text \<open>
  \<^verbatim>\<open>ImageItem\<close> and \<^verbatim>\<open>RemoteImageItem\<close> share five fields; they are declared once and
  extended. \<open>error = None\<close> is \<^verbatim>\<open>undefined\<close>; \<open>imageFile\<close> is the field \<^verbatim>\<open>file\<close>.
\<close>

record TrackedItem =
  fullMatch :: string
  fileName :: string
  status :: ItemStatus
  line :: nat
  error :: "string option"

record ImageItem = TrackedItem +
  imagePath :: string
  imageFile :: "TFile option"

record RemoteImageItem = TrackedItem +
  altText :: string
  url :: string
  isR2 :: bool

text \<open>
  \<^verbatim>\<open>UploadRecord\<close>: fileName, localPath, publicUrl, customUrl, notePath, noteFileName, at.
  \<^verbatim>\<open>DownloadRecord\<close>: fileName, localPath, remoteUrl, notePath, noteFileName, at.
  The field \<^verbatim>\<open>type\<close> is the constructor.
\<close>

datatype ImageRecord =
    UploadRecord string string string string string string string
  | DownloadRecord string string string string string string

text \<open>
  What \<^verbatim>\<open>JSON.parse\<close> can return for the records file: an array (its elements are taken
  as records, as the cast \<^verbatim>\<open>as ImageRecord[]\<close> does), \<^verbatim>\<open>null\<close>, or another value.
\<close>

datatype jsonValue = JArray "ImageRecord list" | JNull | JOther

subsection \<open>The host application\<close>

text \<open>The vault: files and folders by path, in the order of \<^verbatim>\<open>getFiles()\<close>.\<close>

datatype node = FileNode TFile | FolderNode

type_synonym vault = "(string \<times> node) list"

definition getAbstractFileByPath :: "vault \<Rightarrow> string \<Rightarrow> node option" where
  "getAbstractFileByPath v p = map_of v p"

definition getFiles :: "vault \<Rightarrow> TFile list" where
  "getFiles v = concat (map (\<lambda>(p, n). case n of FileNode f \<Rightarrow> [f] | FolderNode \<Rightarrow> []) v)"

text \<open>
  What the host, the platform and the network answer. A function with a sum as result
  may throw (\<open>Inl\<close> the message); \<open>setValueError\<close> and \<open>adapterWriteError\<close> say whether
  \<^verbatim>\<open>editor.setValue\<close> and \<^verbatim>\<open>adapter.write\<close> throw on a text; \<open>urlPathname\<close> is
  \<^verbatim>\<open>new URL(u).pathname\<close> and \<open>typeErrorMessage\<close> the message of the engine's
  \<^verbatim>\<open>TypeError\<close>.
\<close>

record host =
  requestUrl :: network
  readBinary :: "TFile \<Rightarrow> string + string"
  cachedRead :: "TFile \<Rightarrow> string + string"
  getFirstLinkpathDest :: "string \<Rightarrow> string \<Rightarrow> TFile option"
  createFolder :: "vault \<Rightarrow> string \<Rightarrow> string + vault"
  createBinary :: "vault \<Rightarrow> string \<Rightarrow> string \<Rightarrow> string + vault"
  attachmentFolderPath :: "string option"
  setValueError :: "string \<Rightarrow> string option"
  adapterWriteError :: "string \<Rightarrow> string option"
  JSON_parse :: "string \<Rightarrow> jsonValue option"
  JSON_stringify :: "jsonValue \<Rightarrow> string"
  urlPathname :: "string \<Rightarrow> string option"
  decodeURIComponent :: "string \<Rightarrow> string option"
  randomUUID :: string
  toISOString :: string
  typeErrorMessage :: string

text \<open>A callback given to \<^verbatim>\<open>window.setTimeout\<close>, with what its closure holds.\<close>

datatype timerAction =
    RefreshFromEditor
  | RemoveUploaded nat TFile
  | RemoveDownloaded nat TFile

text \<open>
  The state. Items are objects that the plugin mutates in place and that closures keep
  after the lists were rebuilt, so the lists \<open>items\<close> and \<open>remoteItems\<close> hold references
  and \<open>imageItemAt\<close>, \<open>remoteItemAt\<close> hold the objects. \<open>records\<close> is the cache of the
  \<^verbatim>\<open>RecordsManager\<close> and \<open>recordsFile\<close> the content of the file at \<^verbatim>\<open>RECORDS_PATH\<close>
  (\<open>None\<close>: no file). \<open>leaves\<close> are the open markdown views, each with its file and the
  text of its editor. \<open>timers\<close> are the pending timeouts (identifier, delay, callback);
  \<open>rejections\<close> collects the errors of promises that nobody awaits.
\<close>

record state =
  items :: "nat list"
  remoteItems :: "nat list"
  currentFilePath :: "string option"
  refreshTimer :: "nat option"
  imageItemAt :: "nat \<Rightarrow> ImageItem"
  remoteItemAt :: "nat \<Rightarrow> RemoteImageItem"
  nextRef :: nat
  settings :: ImagesR2Settings
  records :: jsonValue
  recordsFile :: "string option"
  vault :: vault
  leaves :: "(TFile option \<times> string) list"
  activeLeaf :: "nat option"
  timers :: "(nat \<times> nat \<times> timerAction) list"
  nextTimer :: nat
  notices :: "string list"
  sent :: "request list"
  rejections :: "string list"

definition localItems :: "state \<Rightarrow> ImageItem list" where
  "localItems st = map (imageItemAt st) (items st)"

definition remoteItemsOf :: "state \<Rightarrow> RemoteImageItem list" where
  "remoteItemsOf st = map (remoteItemAt st) (remoteItems st)"

text \<open>New objects for the values \<open>vs\<close>, at the references \<open>n, n + 1, ...\<close>.\<close>

definition allocate :: "(nat \<Rightarrow> 'a) \<Rightarrow> nat \<Rightarrow> 'a list \<Rightarrow> (nat \<Rightarrow> 'a)" where
  "allocate objs n vs = (\<lambda>a. if n \<le> a \<and> a < n + length vs then vs ! (a - n) else objs a)"

text \<open>\<^verbatim>\<open>window.setTimeout\<close> and \<^verbatim>\<open>window.clearTimeout\<close>.\<close>

definition setTimeout :: "timerAction \<Rightarrow> nat \<Rightarrow> state \<Rightarrow> nat \<times> state" where
  "setTimeout act delay st =
     (nextTimer st,
      st\<lparr>timers := timers st @ [(nextTimer st, delay, act)], nextTimer := Suc (nextTimer st)\<rparr>)"

definition clearTimeout :: "nat \<Rightarrow> state \<Rightarrow> state" where
  "clearTimeout t st = st\<lparr>timers := filter (\<lambda>(t', d, act). t' \<noteq> t) (timers st)\<rparr>"

text \<open>
  \<^verbatim>\<open>getActiveViewOfType(MarkdownView)\<close>, when the view has a file: the file and
  \<^verbatim>\<open>editor.getValue()\<close>.
\<close>

definition activeMarkdown :: "state \<Rightarrow> (TFile \<times> string) option" where
  "activeMarkdown st =
     (case activeLeaf st of
        None \<Rightarrow> None
      | Some i \<Rightarrow>
          if i < length (leaves st)
          then (case leaves st ! i of (None, text) \<Rightarrow> None | (Some f, text) \<Rightarrow> Some (f, text))
          else None)"

text \<open>\<^verbatim>\<open>findEditorForFile\<close>: the first leaf whose file has the path of \<open>f\<close>.\<close>

fun findLeaf :: "string \<Rightarrow> nat \<Rightarrow> (TFile option \<times> string) list \<Rightarrow> nat option" where
  "findLeaf p i [] = None"
| "findLeaf p i ((fo, text) # ls) =
     (if map_option path fo = Some p then Some i else findLeaf p (Suc i) ls)"

definition findEditorForFile :: "(TFile option \<times> string) list \<Rightarrow> TFile \<Rightarrow> nat option" where
  "findEditorForFile ls f = findLeaf (path f) 0 ls"

subsection \<open>Extraction and reconciliation (view.ts, buildItems)\<close>

text \<open>\<^verbatim>\<open>xs.pop() ?? d\<close>: the last element, or \<open>d\<close> for the empty array.\<close>

definition popOr :: "'a list \<Rightarrow> 'a \<Rightarrow> 'a" where
  "popOr xs d = (case rev xs of [] \<Rightarrow> d | x # rest \<Rightarrow> x)"

text \<open>\<^verbatim>\<open>resolveImageFile\<close> (main.ts).\<close>

definition resolveImageFile :: "host \<Rightarrow> vault \<Rightarrow> string \<Rightarrow> TFile \<Rightarrow> TFile option" where
  "resolveImageFile h v imgPath activeFile =
     (case getFirstLinkpathDest h imgPath (path activeFile) of
        Some resolved \<Rightarrow> Some resolved
      | None \<Rightarrow>
          (let fName = popOr (split imgPath ''/'') imgPath
           in find (\<lambda>f. name f = fName) (getFiles v)))"

definition isR2Url :: "ImagesR2Settings \<Rightarrow> string \<Rightarrow> bool" where
  "isR2Url s u =
     (if customDomain s \<noteq> [] \<and> startsWith u (customDomain s) then True
      else test r2DevRegex u)"

text \<open>The characters of \<^verbatim>\<open>/[<>:"/\\|?*]/g\<close>.\<close>

definition forbiddenInName :: "char list" where
  "forbiddenInName = ''<>:/|?*'' @ [CHR 0x22, CHR 0x5C]"

definition fileNameFromUrl :: "host \<Rightarrow> string \<Rightarrow> string" where
  "fileNameFromUrl h u =
     (case urlPathname h u of
        None \<Rightarrow> ''image.jpg''
      | Some pathname \<Rightarrow>
          (let rawName = popOr (split pathname ''/'') [] in
           (case decodeURIComponent h rawName of
              None \<Rightarrow> ''image.jpg''
            | Some decoded \<Rightarrow>
                (let nm = map (\<lambda>c. if c \<in> set forbiddenInName then CHR ''_'' else c) decoded
                 in if nm = [] \<or> CHR ''.'' \<notin> set nm then ''image.jpg'' else nm))))"

text \<open>
  The filter with the set \<^verbatim>\<open>seen\<close>: a match is kept when its text was not seen before.
\<close>

fun filterSeen :: "string set \<Rightarrow> RegExpMatch list \<Rightarrow> RegExpMatch list" where
  "filterSeen seen [] = []"
| "filterSeen seen (m # ms) =
     (if matched m \<in> seen then filterSeen seen ms
      else m # filterSeen (insert (matched m) seen) ms)"

text \<open>\<^verbatim>\<open>new Map(pairs)\<close>: a later pair replaces an earlier one with the same key.\<close>

definition newMap :: "('k \<times> 'v) list \<Rightarrow> ('k \<rightharpoonup> 'v)" where
  "newMap kvs = foldl (\<lambda>m (k, v). m(k \<mapsto> v)) Map.empty kvs"

text \<open>\<^verbatim>\<open>content.substring(0, m.index ?? 0).split('\n').length - 1\<close>.\<close>

definition lineOf :: "string \<Rightarrow> RegExpMatch \<Rightarrow> nat" where
  "lineOf content m = length (split (take (index m) content) [CHR 0x0A]) - 1"

definition localMatches :: "string \<Rightarrow> RegExpMatch list" where
  "localMatches content = filterSeen {} (matchAll content localRegex)"

definition remoteMatches :: "string \<Rightarrow> RegExpMatch list" where
  "remoteMatches content = filterSeen {} (matchAll content remoteRegex)"

text \<open>
  The callback of \<^verbatim>\<open>localMatches.map\<close>; \<open>existing\<close> is \<^verbatim>\<open>existingLocalMap\<close>, and
  \<^verbatim>\<open>{...existing, line}\<close> copies the object with a new line.
\<close>

definition localItemOf ::
  "host \<Rightarrow> vault \<Rightarrow> TFile \<Rightarrow> string \<Rightarrow> (string \<rightharpoonup> ImageItem) \<Rightarrow> RegExpMatch \<Rightarrow> ImageItem" where
  "localItemOf h v f content existing m =
     (let ln = lineOf content m in
      (case existing (matched m) of
         Some old \<Rightarrow> old\<lparr>line := ln\<rparr>
       | None \<Rightarrow>
           (let imgPath = group m 1;
                resolvedFile = resolveImageFile h v imgPath f
            in \<lparr>fullMatch = matched m,
                fileName = (case resolvedFile of Some rf \<Rightarrow> name rf | None \<Rightarrow> imgPath),
                status = Idle,
                line = ln,
                error = None,
                imagePath = imgPath,
                imageFile = resolvedFile\<rparr>)))"

definition remoteItemOf ::
  "host \<Rightarrow> ImagesR2Settings \<Rightarrow> string \<Rightarrow> (string \<rightharpoonup> RemoteImageItem) \<Rightarrow> RegExpMatch
     \<Rightarrow> RemoteImageItem" where
  "remoteItemOf h s content existing m =
     (let ln = lineOf content m in
      (case existing (matched m) of
         Some old \<Rightarrow> old\<lparr>line := ln\<rparr>
       | None \<Rightarrow>
           (let alt = group m 1;
                u = group m 2
            in \<lparr>fullMatch = matched m,
                fileName = fileNameFromUrl h u,
                status = Idle,
                line = ln,
                error = None,
                altText = alt,
                url = u,
                isR2 = isR2Url s u\<rparr>)))"

text \<open>
  \<^verbatim>\<open>buildItems\<close>. Both lists are replaced by lists of new objects; the old objects stay
  where they are, for the closures that still hold them.
\<close>

definition buildItems :: "host \<Rightarrow> TFile \<Rightarrow> string \<Rightarrow> state \<Rightarrow> state" where
  "buildItems h f content st =
     (let fileChanged = (Some (path f) \<noteq> currentFilePath st);
          existingLocalMap =
            (if fileChanged then Map.empty
             else newMap (map (\<lambda>i. (fullMatch i, i)) (localItems st)));
          newLocal =
            map (localItemOf h (vault st) f content existingLocalMap) (localMatches content);
          existingRemoteMap =
            (if fileChanged then Map.empty
             else newMap (map (\<lambda>i. (fullMatch i, i)) (remoteItemsOf st)));
          newRemote =
            map (remoteItemOf h (settings st) content existingRemoteMap)
              (remoteMatches content);
          n = nextRef st;
          k = n + length newLocal
      in st\<lparr>currentFilePath := Some (path f),
            items := [n ..< k],
            imageItemAt := allocate (imageItemAt st) n newLocal,
            remoteItems := [k ..< k + length newRemote],
            remoteItemAt := allocate (remoteItemAt st) k newRemote,
            nextRef := k + length newRemote\<rparr>)"

text \<open>
  The refreshes. A rejected promise of a handler that nobody awaits goes to
  \<open>rejections\<close>. Rendering changes no state and is left out.
\<close>

definition refreshFromEditor :: "host \<Rightarrow> state \<Rightarrow> state" where
  "refreshFromEditor h st =
     (case activeMarkdown st of
        None \<Rightarrow> st
      | Some (f, content) \<Rightarrow> buildItems h f content st)"

definition refreshForFile :: "host \<Rightarrow> TFile option \<Rightarrow> state \<Rightarrow> state" where
  "refreshForFile h fo st =
     (case fo of
        None \<Rightarrow> st\<lparr>currentFilePath := None, items := [], remoteItems := []\<rparr>
      | Some f \<Rightarrow>
          if extension f \<noteq> ''md''
          then st\<lparr>currentFilePath := None, items := [], remoteItems := []\<rparr>
          else (case cachedRead h f of
                  Inl e \<Rightarrow> st\<lparr>rejections := rejections st @ [e]\<rparr>
                | Inr content \<Rightarrow> buildItems h f content st))"

definition refreshCurrentFile :: "host \<Rightarrow> state \<Rightarrow> state" where
  "refreshCurrentFile h st =
     (case currentFilePath st of
        None \<Rightarrow> st
      | Some p \<Rightarrow>
          if p = [] then st
          else (case getAbstractFileByPath (vault st) p of
                  Some (FileNode f) \<Rightarrow>
                    (case cachedRead h f of
                       Inl e \<Rightarrow> st\<lparr>rejections := rejections st @ [e]\<rparr>
                     | Inr content \<Rightarrow> buildItems h f content st)
                | other \<Rightarrow> st\<lparr>currentFilePath := None\<rparr>))"

definition refresh :: "host \<Rightarrow> state \<Rightarrow> state" where
  "refresh h st =
     (case activeMarkdown st of
        Some (f, content) \<Rightarrow> buildItems h f content st
      | None \<Rightarrow> refreshCurrentFile h st)"

text \<open>
  The handler of \<^verbatim>\<open>editor-change\<close> registered in \<^verbatim>\<open>onOpen\<close>. \<^verbatim>\<open>if (this.refreshTimer)\<close>
  is true for an identifier other than 0.
\<close>

definition onEditorChange :: "state \<Rightarrow> state" where
  "onEditorChange st =
     (if list_ex (\<lambda>i. status i = Uploading) (localItems st) \<or>
         list_ex (\<lambda>i. status i = Uploading) (remoteItemsOf st)
      then st
      else (let st1 = (case refreshTimer st of
                         None \<Rightarrow> st
                       | Some t \<Rightarrow> if t \<noteq> 0 then clearTimeout t st else st);
                (t, st2) = setTimeout RefreshFromEditor 800 st1
            in st2\<lparr>refreshTimer := Some t\<rparr>))"

subsection \<open>The record store (records.ts)\<close>

text \<open>
  \<^verbatim>\<open>load\<close>: the cache when it is not \<^verbatim>\<open>null\<close>; otherwise the file is read and parsed,
  and a failure of either (no file, or text that \<^verbatim>\<open>JSON.parse\<close> rejects) gives the
  empty array.
\<close>

definition load :: "host \<Rightarrow> state \<Rightarrow> jsonValue \<times> state" where
  "load h st =
     (if records st \<noteq> JNull then (records st, st)
      else (let v = (case recordsFile st of
                       None \<Rightarrow> JArray []
                     | Some raw \<Rightarrow>
                         (case JSON_parse h raw of None \<Rightarrow> JArray [] | Some parsed \<Rightarrow> parsed))
            in (v, st\<lparr>records := v\<rparr>)))"

text \<open>\<^verbatim>\<open>save\<close>: the whole cache is written; \<open>Some e\<close> is the error of a failed write.\<close>

definition save :: "host \<Rightarrow> state \<Rightarrow> string option \<times> state" where
  "save h st =
     (let text = JSON_stringify h (records st) in
      (case adapterWriteError h text of
         Some e \<Rightarrow> (Some e, st)
       | None \<Rightarrow> (None, st\<lparr>recordsFile := Some text\<rparr>)))"

text \<open>
  The body shared by \<^verbatim>\<open>addUpload\<close> and \<^verbatim>\<open>addDownload\<close>; \<open>mk\<close> builds the record from
  the time stamp. \<^verbatim>\<open>records.push\<close> on a value that is not an array throws.
\<close>

definition addRecord :: "host \<Rightarrow> (string \<Rightarrow> ImageRecord) \<Rightarrow> state \<Rightarrow> string option \<times> state" where
  "addRecord h mk st =
     (case load h st of
        (JArray rs, st1) \<Rightarrow> save h (st1\<lparr>records := JArray (rs @ [mk (toISOString h)])\<rparr>)
      | (other, st1) \<Rightarrow> (Some (typeErrorMessage h), st1))"

definition addUpload ::
  "host \<Rightarrow> string \<Rightarrow> string \<Rightarrow> string \<Rightarrow> string \<Rightarrow> string \<Rightarrow> string \<Rightarrow> state
     \<Rightarrow> string option \<times> state" where
  "addUpload h fName localPath publicUrl customUrl notePath noteFileName st =
     addRecord h (UploadRecord fName localPath publicUrl customUrl notePath noteFileName) st"

definition addDownload ::
  "host \<Rightarrow> string \<Rightarrow> string \<Rightarrow> string \<Rightarrow> string \<Rightarrow> string \<Rightarrow> state
     \<Rightarrow> string option \<times> state" where
  "addDownload h fName localPath remoteUrl notePath noteFileName st =
     addRecord h (DownloadRecord fName localPath remoteUrl notePath noteFileName) st"

text \<open>
  A call whose promise is not awaited: it runs, and its error, if any, reaches nobody
  but the list of unhandled rejections.
\<close>

definition detached :: "string option \<times> state \<Rightarrow> state" where
  "detached r =
     (case r of
        (None, st) \<Rightarrow> st
      | (Some e, st) \<Rightarrow> st\<lparr>rejections := rejections st @ [e]\<rparr>)"

text \<open>
  The appends of a sequence of transfers, one after the other whatever their outcome,
  and the records they make.
\<close>

definition appendAll :: "host \<Rightarrow> (string \<Rightarrow> ImageRecord) list \<Rightarrow> state \<Rightarrow> state" where
  "appendAll h mks st = foldl (\<lambda>s mk. snd (addRecord h mk s)) st mks"

definition stamped :: "host \<Rightarrow> (string \<Rightarrow> ImageRecord) list \<Rightarrow> jsonValue" where
  "stamped h mks = JArray (map (\<lambda>mk. mk (toISOString h)) mks)"

subsection \<open>Upload (main.ts uploadImageFile, view.ts doUpload)\<close>

definition MIME_TYPES :: "(string \<times> string) list" where
  "MIME_TYPES =
     [(''png'', ''image/png''), (''jpg'', ''image/jpeg''), (''jpeg'', ''image/jpeg''),
      (''gif'', ''image/gif''), (''webp'', ''image/webp''), (''svg'', ''image/svg+xml''),
      (''bmp'', ''image/bmp''), (''ico'', ''image/x-icon''), (''tiff'', ''image/tiff''),
      (''tif'', ''image/tiff'')]"

datatype UploadResult = UploadSuccess string | UploadFailure string

definition uploadRequest :: "ImagesR2Settings \<Rightarrow> TFile \<Rightarrow> string \<Rightarrow> request" where
  "uploadRequest s f fileBuffer =
     \<lparr>reqUrl = ''https://api.cloudflare.com/client/v4/accounts/'' @ accountId s
                @ ''/r2/buckets/'' @ bucketName s @ ''/objects/'' @ encodeURIComponent (name f),
      reqMethod = ''PUT'',
      reqAuthorization = Some (''Bearer '' @ r2Token s),
      reqContentType =
        Some (case map_of MIME_TYPES (toLowerCase (extension f)) of
                Some t \<Rightarrow> t
              | None \<Rightarrow> ''application/octet-stream''),
      reqBody = Some fileBuffer\<rparr>"

text \<open>
  \<^verbatim>\<open>uploadImageFile\<close>, with the requests it sent. The view passes \<^verbatim>\<open>item.file!\<close>; on
  \<^verbatim>\<open>null\<close> the first use of the file throws inside the outer \<^verbatim>\<open>try\<close>.
\<close>

definition uploadImageFile ::
  "host \<Rightarrow> ImagesR2Settings \<Rightarrow> TFile option \<Rightarrow> string \<Rightarrow> UploadResult \<times> request list" where
  "uploadImageFile h s fo baseUrl =
     (if accountId s = [] \<or> r2Token s = [] \<or> bucketName s = []
      then (UploadFailure ''Missing configuration'', [])
      else (case fo of
              None \<Rightarrow> (UploadFailure (typeErrorMessage h), [])
            | Some f \<Rightarrow>
                (case readBinary h f of
                   Inl e \<Rightarrow> (UploadFailure e, [])
                 | Inr fileBuffer \<Rightarrow>
                     (let req = uploadRequest s f fileBuffer in
                      (case requestUrl h req of
                         Inl e \<Rightarrow> UploadFailure e
                       | Inr resp \<Rightarrow>
                           if respStatus resp \<noteq> 200
                           then UploadFailure
                                  (case respJson resp of
                                     None \<Rightarrow> ''HTTP '' @ decimal (respStatus resp)
                                   | Some j \<Rightarrow>
                                       (case firstErrorMessage j of
                                          Some msg \<Rightarrow> msg
                                        | None \<Rightarrow> ''HTTP '' @ decimal (respStatus resp)))
                           else (case respJson resp of
                                   None \<Rightarrow> UploadFailure ''Invalid response''
                                 | Some data \<Rightarrow>
                                     if \<not> success data
                                     then UploadFailure
                                            (case firstErrorMessage data of
                                               Some msg \<Rightarrow> msg
                                             | None \<Rightarrow> ''Unknown error'')
                                     else UploadSuccess
                                            (baseUrl @ ''/'' @ encodeURIComponent (name f))),
                       [req])))))"

text \<open>Assignments to the fields of an item object.\<close>

definition setStatus :: "nat \<Rightarrow> ItemStatus \<Rightarrow> state \<Rightarrow> state" where
  "setStatus item s st =
     st\<lparr>imageItemAt := (imageItemAt st)(item := (imageItemAt st item)\<lparr>status := s\<rparr>)\<rparr>"

definition setError :: "nat \<Rightarrow> string option \<Rightarrow> state \<Rightarrow> state" where
  "setError item e st =
     st\<lparr>imageItemAt := (imageItemAt st)(item := (imageItemAt st item)\<lparr>error := e\<rparr>)\<rparr>"

definition setRemoteStatus :: "nat \<Rightarrow> ItemStatus \<Rightarrow> state \<Rightarrow> state" where
  "setRemoteStatus item s st =
     st\<lparr>remoteItemAt := (remoteItemAt st)(item := (remoteItemAt st item)\<lparr>status := s\<rparr>)\<rparr>"

definition setRemoteError :: "nat \<Rightarrow> string option \<Rightarrow> state \<Rightarrow> state" where
  "setRemoteError item e st =
     st\<lparr>remoteItemAt := (remoteItemAt st)(item := (remoteItemAt st item)\<lparr>error := e\<rparr>)\<rparr>"

text \<open>
  The rewrite of the open document: \<^verbatim>\<open>current.split(old).join(new)\<close>, written back
  when it differs. It touches the leaves only; without an editor for the file nothing
  happens.
\<close>

definition rewriteEditor ::
  "host \<Rightarrow> (TFile option \<times> string) list \<Rightarrow> TFile \<Rightarrow> string \<Rightarrow> string
     \<Rightarrow> string + (TFile option \<times> string) list" where
  "rewriteEditor h ls activeFile old new =
     (case findEditorForFile ls activeFile of
        None \<Rightarrow> Inr ls
      | Some i \<Rightarrow>
          (let current = snd (ls ! i);
               updated = join (split current old) new
           in if updated \<noteq> current
              then (case setValueError h updated of
                      Some e \<Rightarrow> Inl e
                    | None \<Rightarrow> Inr (ls[i := (fst (ls ! i), updated)]))
              else Inr ls))"

text \<open>
  \<^verbatim>\<open>doUpload\<close>. The first component is the error with which the promise rejects, if it
  does: the function has no handler of its own. \<^verbatim>\<open>addUpload\<close> is not awaited.
\<close>

definition doUpload :: "host \<Rightarrow> nat \<Rightarrow> TFile \<Rightarrow> string \<Rightarrow> state \<Rightarrow> string option \<times> state" where
  "doUpload h item activeFile baseUrl st =
     (let st1 = setError item None (setStatus item Uploading st);
          it = imageItemAt st1 item;
          (result, reqs) = uploadImageFile h (settings st1) (imageFile it) baseUrl;
          st2 = st1\<lparr>sent := sent st1 @ reqs\<rparr>
      in (case result of
            UploadSuccess publicUrl \<Rightarrow>
              (let st3 = setStatus item Done st2 in
               (case rewriteEditor h (leaves st3) activeFile (fullMatch it)
                       (''!['' @ fileName it @ '']('' @ publicUrl @ '')'') of
                  Inl e \<Rightarrow> (Some e, st3)
                | Inr rewritten \<Rightarrow>
                    (case imageFile it of
                       None \<Rightarrow> (Some (typeErrorMessage h), st3\<lparr>leaves := rewritten\<rparr>)
                     | Some f \<Rightarrow>
                         (let st4 = st3\<lparr>leaves := rewritten\<rparr>;
                              cd = customDomain (settings st4);
                              st5 = detached
                                (addUpload h (fileName it) (path f) publicUrl
                                   (if cd \<noteq> [] then cd @ ''/'' @ encodeURIComponent (fileName it)
                                    else [])
                                   (path activeFile) (name activeFile) st4);
                              (t, st6) = setTimeout (RemoveUploaded item activeFile) 1000 st5
                          in (None, st6)))))
          | UploadFailure e \<Rightarrow> (None, setError item (Some e) (setStatus item Failed st2))))"

text \<open>The notice; the arrow of its text is written \<^verbatim>\<open>->\<close> here.\<close>

definition noPublicUrlNotice :: string where
  "noPublicUrlNotice =
     ''Images -> R2: No public URL. Enable managed domain or set a Custom Domain in settings.''"

text \<open>\<^verbatim>\<open>this.plugin.resolveBaseUrl()\<close> from the view, with the requests noted.\<close>

definition resolveBase :: "host \<Rightarrow> state \<Rightarrow> string option \<times> state" where
  "resolveBase h st =
     (case resolveBaseUrl (settings st) (requestUrl h) of
        (b, reqs) \<Rightarrow> (b, st\<lparr>sent := sent st @ reqs\<rparr>))"

definition uploadItem :: "host \<Rightarrow> nat \<Rightarrow> TFile \<Rightarrow> state \<Rightarrow> string option \<times> state" where
  "uploadItem h item activeFile st =
     (if imageFile (imageItemAt st item) = None then (None, st)
      else (case resolveBase h st of
              (None, st1) \<Rightarrow> (None, st1\<lparr>notices := notices st1 @ [noPublicUrlNotice]\<rparr>)
            | (Some baseUrl, st1) \<Rightarrow>
                if baseUrl = [] then (None, st1\<lparr>notices := notices st1 @ [noPublicUrlNotice]\<rparr>)
                else doUpload h item activeFile baseUrl st1))"

text \<open>The loop of \<^verbatim>\<open>uploadAll\<close>: an error that escapes \<^verbatim>\<open>doUpload\<close> ends it.\<close>

fun uploadEach :: "host \<Rightarrow> TFile \<Rightarrow> string \<Rightarrow> nat list \<Rightarrow> state \<Rightarrow> string option \<times> state" where
  "uploadEach h activeFile baseUrl [] st = (None, st)"
| "uploadEach h activeFile baseUrl (item # pending) st =
     (case doUpload h item activeFile baseUrl st of
        (Some e, st1) \<Rightarrow> (Some e, st1)
      | (None, st1) \<Rightarrow> uploadEach h activeFile baseUrl pending st1)"

definition uploadAll :: "host \<Rightarrow> TFile \<Rightarrow> state \<Rightarrow> string option \<times> state" where
  "uploadAll h activeFile st =
     (case resolveBase h st of
        (None, st1) \<Rightarrow> (None, st1\<lparr>notices := notices st1 @ [noPublicUrlNotice]\<rparr>)
      | (Some baseUrl, st1) \<Rightarrow>
          if baseUrl = [] then (None, st1\<lparr>notices := notices st1 @ [noPublicUrlNotice]\<rparr>)
          else uploadEach h activeFile baseUrl
                 (filter (\<lambda>a. (status (imageItemAt st1 a) = Idle \<or>
                                status (imageItemAt st1 a) = Failed) \<and>
                               imageFile (imageItemAt st1 a) \<noteq> None)
                    (items st1))
                 st1)"

subsection \<open>Download (view.ts)\<close>

definition resolveDownloadFolder :: "host \<Rightarrow> ImagesR2Settings \<Rightarrow> TFile \<Rightarrow> string" where
  "resolveDownloadFolder h s activeFile =
     (if downloadFolder s \<noteq> [] then downloadFolder s
      else (let cfg = (case attachmentFolderPath h of Some c \<Rightarrow> c | None \<Rightarrow> []);
                parent = (case parentPath activeFile of Some p \<Rightarrow> p | None \<Rightarrow> [])
            in if cfg = [] \<or> cfg = ''.'' \<or> cfg = ''./'' then parent
               else if startsWith cfg ''./''
               then (let sub = drop 2 cfg in if parent \<noteq> [] then parent @ ''/'' @ sub else sub)
               else cfg))"

text \<open>The loop of \<^verbatim>\<open>ensureFolder\<close>; an error of \<^verbatim>\<open>createFolder\<close> is swallowed.\<close>

fun ensureParts :: "host \<Rightarrow> string \<Rightarrow> string list \<Rightarrow> vault \<Rightarrow> vault" where
  "ensureParts h current [] v = v"
| "ensureParts h current (part # parts) v =
     (let current' = (if current \<noteq> [] then current @ ''/'' @ part else part);
          v' = (if getAbstractFileByPath v current' = None
                then (case createFolder h v current' of Inl e \<Rightarrow> v | Inr created \<Rightarrow> created)
                else v)
      in ensureParts h current' parts v')"

definition ensureFolder :: "host \<Rightarrow> string \<Rightarrow> vault \<Rightarrow> vault" where
  "ensureFolder h folderPath v =
     (if folderPath = [] then v else ensureParts h [] (split folderPath ''/'') v)"

text \<open>
  \<^verbatim>\<open>uniquePath\<close>: \<^verbatim>\<open>path.slice(0, lastDot)\<close>, \<^verbatim>\<open>path.slice(lastDot)\<close> and the first eight
  characters of a random UUID.
\<close>

definition uniquePath :: "host \<Rightarrow> vault \<Rightarrow> string \<Rightarrow> string" where
  "uniquePath h v p =
     (if getAbstractFileByPath v p = None then p
      else (let lastDot = lastIndexOf p CHR ''.'';
                base = (if lastDot \<ge> 0 then take (nat lastDot) p else p);
                ext = (if lastDot \<ge> 0 then drop (nat lastDot) p else []);
                uid = take 8 (randomUUID h)
            in base @ ''-'' @ uid @ ext))"

text \<open>
  Where a download is saved: the vault after \<^verbatim>\<open>ensureFolder\<close>, and \<^verbatim>\<open>savePath\<close>.
\<close>

definition saveTarget ::
  "host \<Rightarrow> ImagesR2Settings \<Rightarrow> TFile \<Rightarrow> string \<Rightarrow> vault \<Rightarrow> vault \<times> string" where
  "saveTarget h s activeFile fName v =
     (let folder = resolveDownloadFolder h s activeFile;
          ensured = ensureFolder h folder v;
          basePath = (if folder \<noteq> [] then folder @ ''/'' @ fName else fName)
      in (ensured, uniquePath h ensured basePath))"

definition downloadRequest :: "string \<Rightarrow> request" where
  "downloadRequest u =
     \<lparr>reqUrl = u, reqMethod = ''GET'', reqAuthorization = None, reqContentType = None,
      reqBody = None\<rparr>"

text \<open>The two assignments of a failure: \<^verbatim>\<open>item.status = 'failed'; item.error = e\<close>.\<close>

definition failRemote :: "nat \<Rightarrow> string \<Rightarrow> state \<Rightarrow> state" where
  "failRemote item e st = setRemoteError item (Some e) (setRemoteStatus item Failed st)"

text \<open>
  \<^verbatim>\<open>doDownload\<close>. Everything after the first two assignments is inside \<^verbatim>\<open>try\<close>, so the
  promise never rejects; what was done before an error stays done. \<^verbatim>\<open>addDownload\<close>
  is not awaited.
\<close>

definition doDownload :: "host \<Rightarrow> nat \<Rightarrow> TFile \<Rightarrow> state \<Rightarrow> state" where
  "doDownload h item activeFile st =
     (let st1 = setRemoteError item None (setRemoteStatus item Uploading st);
          it = remoteItemAt st1 item;
          req = downloadRequest (url it);
          st2 = st1\<lparr>sent := sent st1 @ [req]\<rparr>
      in (case requestUrl h req of
            Inl e \<Rightarrow> failRemote item e st2
          | Inr resp \<Rightarrow>
              if respStatus resp < 200 \<or> respStatus resp \<ge> 300
              then failRemote item (''HTTP '' @ decimal (respStatus resp)) st2
              else (case saveTarget h (settings st2) activeFile (fileName it) (vault st2) of
                      (ensured, savePath) \<Rightarrow>
                        (let st3 = st2\<lparr>vault := ensured\<rparr> in
                         (case createBinary h ensured savePath (respArrayBuffer resp) of
                            Inl e \<Rightarrow> failRemote item e st3
                          | Inr written \<Rightarrow>
                              (let st4 = st3\<lparr>vault := written\<rparr> in
                               (case getAbstractFileByPath written savePath of
                                  Some (FileNode savedFile) \<Rightarrow>
                                    (case rewriteEditor h (leaves st4) activeFile (fullMatch it)
                                            (''![['' @ name savedFile @ '']]'') of
                                       Inl e \<Rightarrow> failRemote item e st4
                                     | Inr rewritten \<Rightarrow>
                                         (let st5 = st4\<lparr>leaves := rewritten\<rparr>;
                                              st6 = setRemoteStatus item Done st5;
                                              st7 = detached
                                                (addDownload h (name savedFile)
                                                   (path savedFile) (url it) (path activeFile)
                                                   (name activeFile) st6);
                                              (t, st8) =
                                                setTimeout (RemoveDownloaded item activeFile)
                                                  1000 st7
                                          in st8))
                                | other \<Rightarrow> failRemote item ''File not saved'' st4)))))))"

definition downloadItem :: "host \<Rightarrow> nat \<Rightarrow> TFile \<Rightarrow> state \<Rightarrow> state" where
  "downloadItem h item activeFile st = doDownload h item activeFile st"

definition downloadAll :: "host \<Rightarrow> TFile \<Rightarrow> state \<Rightarrow> state" where
  "downloadAll h activeFile st =
     foldl (\<lambda>s item. doDownload h item activeFile s) st
       (filter (\<lambda>a. status (remoteItemAt st a) = Idle \<or> status (remoteItemAt st a) = Failed)
          (remoteItems st))"

text \<open>
  The remote operation of a download succeeded: the request for the URL of the item
  was answered with a status in 2xx, and \<open>ensured\<close> and \<open>savePath\<close> are where the
  answer is to be saved.
\<close>

definition fetched ::
  "host \<Rightarrow> state \<Rightarrow> nat \<Rightarrow> TFile \<Rightarrow> response \<Rightarrow> vault \<Rightarrow> string \<Rightarrow> bool" where
  "fetched h st item activeFile resp ensured savePath =
     (requestUrl h (downloadRequest (url (remoteItemAt st item))) = Inr resp \<and>
      200 \<le> respStatus resp \<and> respStatus resp < 300 \<and>
      saveTarget h (settings st) activeFile (fileName (remoteItemAt st item)) (vault st)
        = (ensured, savePath))"

subsection \<open>Timers\<close>

text \<open>
  A pending timeout fires: it leaves the list and its callback runs. The callbacks of
  \<^verbatim>\<open>doUpload\<close> and \<^verbatim>\<open>doDownload\<close> remove the item from its list, by identity, when the
  document is still the current one.
\<close>

definition runTimer :: "host \<Rightarrow> timerAction \<Rightarrow> state \<Rightarrow> state" where
  "runTimer h act st =
     (case act of
        RefreshFromEditor \<Rightarrow> refreshFromEditor h st
      | RemoveUploaded item activeFile \<Rightarrow>
          if currentFilePath st \<noteq> Some (path activeFile) then st
          else st\<lparr>items := filter (\<lambda>i. i \<noteq> item) (items st),
                  notices := notices st @ [''Uploaded: '' @ fileName (imageItemAt st item)]\<rparr>
      | RemoveDownloaded item activeFile \<Rightarrow>
          if currentFilePath st \<noteq> Some (path activeFile) then st
          else st\<lparr>remoteItems := filter (\<lambda>i. i \<noteq> item) (remoteItems st),
                  notices := notices st @ [''Downloaded: '' @ fileName (remoteItemAt st item)]\<rparr>)"

definition fireTimer :: "host \<Rightarrow> nat \<Rightarrow> state \<Rightarrow> state" where
  "fireTimer h t st =
     (case find (\<lambda>(t', d, act). t' = t) (timers st) of
        None \<Rightarrow> st
      | Some (t', d, act) \<Rightarrow> runTimer h act (clearTimeout t st))"

subsection \<open>Extraction in the words of the specification\<close>

text \<open>
  Deduplication by exact equality of the raw text, the first occurrence kept; and the
  number of newline characters before a position of the text.
\<close>

fun firstOccurrences :: "RegExpMatch list \<Rightarrow> RegExpMatch list" where
  "firstOccurrences [] = []"
| "firstOccurrences (m # ms) =
     m # firstOccurrences (filter (\<lambda>m'. matched m' \<noteq> matched m) ms)"

definition newlinesBefore :: "string \<Rightarrow> nat \<Rightarrow> nat" where
  "newlinesBefore content i = length (filter (\<lambda>c. c = CHR 0x0A) (take i content))"

subsection \<open>Concrete scenarios\<close>

definition managedSettings :: ImagesR2Settings where
  "managedSettings =
     \<lparr>accountId = ''acc'', r2Token = ''tok'', bucketName = ''pics'', customDomain = '''',
      downloadFolder = ''''\<rparr>"

definition managedNet :: network where
  "managedNet req =
     Inr \<lparr>respStatus = 200,
          respJson = Some \<lparr>success = True, firstErrorMessage = None,
                           resultDomain = Some ''pub-1.r2.dev''\<rparr>,
          respArrayBuffer = ''''\<rparr>"

definition photoPng :: TFile where
  "photoPng = \<lparr>path = ''img/photo.png'', name = ''photo.png'', extension = ''png'',
                parentPath = Some ''img''\<rparr>"

definition noteA :: TFile where
  "noteA = \<lparr>path = ''a.md'', name = ''a.md'', extension = ''md'', parentPath = Some []\<rparr>"

definition noteB :: TFile where
  "noteB = \<lparr>path = ''b.md'', name = ''b.md'', extension = ''md'', parentPath = Some []\<rparr>"

definition showJson :: "jsonValue \<Rightarrow> string" where
  "showJson v =
     (case v of
        JArray rs \<Rightarrow> ''records: '' @ decimal (length rs)
      | JNull \<Rightarrow> ''null''
      | JOther \<Rightarrow> ''other'')"

definition quietHost :: host where
  "quietHost =
     \<lparr>requestUrl = (\<lambda>req. Inl ''offline''),
      readBinary = (\<lambda>f. Inr ''bytes''),
      cachedRead = (\<lambda>f. Inr []),
      getFirstLinkpathDest = (\<lambda>p src. None),
      createFolder = (\<lambda>v p. Inr (v @ [(p, FolderNode)])),
      createBinary = (\<lambda>v p data. Inl ''read-only''),
      attachmentFolderPath = None,
      setValueError = (\<lambda>t. None),
      adapterWriteError = (\<lambda>t. None),
      JSON_parse = (\<lambda>t. None),
      JSON_stringify = showJson,
      urlPathname = (\<lambda>u. None),
      decodeURIComponent = Some,
      randomUUID = ''123e4567-e89b-42d3-a456-426614174000'',
      toISOString = ''2026-01-01T00:00:00.000Z'',
      typeErrorMessage = ''TypeError''\<rparr>"

definition photoItem :: "ItemStatus \<Rightarrow> string option \<Rightarrow> TFile option \<Rightarrow> ImageItem" where
  "photoItem s e fo =
     \<lparr>fullMatch = ''![[photo.png]]'', fileName = ''photo.png'', status = s, line = 7,
      error = e, imagePath = ''photo.png'', imageFile = fo\<rparr>"

definition catItem :: "ItemStatus \<Rightarrow> string option \<Rightarrow> RemoteImageItem" where
  "catItem s e =
     \<lparr>fullMatch = ''![pic](https://example.com/a/b/cat.jpg)'', fileName = ''cat.jpg'',
      status = s, line = 9, error = e, altText = ''pic'',
      url = ''https://example.com/a/b/cat.jpg'', isR2 = False\<rparr>"

definition emptyState :: state where
  "emptyState =
     \<lparr>items = [], remoteItems = [], currentFilePath = None, refreshTimer = None,
      imageItemAt = (\<lambda>a. photoItem Idle None None),
      remoteItemAt = (\<lambda>a. catItem Idle None),
      nextRef = 0, settings = DEFAULT_SETTINGS, records = JNull, recordsFile = None,
      vault = [], leaves = [], activeLeaf = None, timers = [], nextTimer = 1, notices = [],
      sent = [], rejections = []\<rparr>"

definition trackedState :: "ImageItem \<Rightarrow> RemoteImageItem \<Rightarrow> state" where
  "trackedState li ri =
     emptyState\<lparr>items := [0], remoteItems := [1], imageItemAt := (\<lambda>a. li),
                remoteItemAt := (\<lambda>a. ri), nextRef := 2, currentFilePath := Some ''a.md'',
                vault := [(''img/photo.png'', FileNode photoPng)]\<rparr>"

definition sampleText :: string where
  "sampleText = ''intro'' @ [CHR 0x0A] @ ''![[photo.png]] and ![[photo.png]]'' @ [CHR 0x0A]
                @ ''![pic](https://example.com/a/b/cat.jpg)''"

definition failedState :: state where
  "failedState = trackedState (photoItem Failed (Some ''HTTP 500'') None) (catItem Uploading None)"

definition readingHost :: host where
  "readingHost = quietHost\<lparr>cachedRead := (\<lambda>f. Inr sampleText)\<rparr>"

definition catJpg :: TFile where
  "catJpg = \<lparr>path = ''cat.jpg'', name = ''cat.jpg'', extension = ''jpg'', parentPath = Some []\<rparr>"

definition catSuffixedJpg :: TFile where
  "catSuffixedJpg = \<lparr>path = ''cat-123e4567.jpg'', name = ''cat-123e4567.jpg'',
                      extension = ''jpg'', parentPath = Some []\<rparr>"

definition crowdedVault :: vault where
  "crowdedVault = [(''cat.jpg'', FileNode catJpg), (''cat-123e4567.jpg'', FileNode catSuffixedJpg)]"

definition brokenFileState :: state where
  "brokenFileState = emptyState\<lparr>recordsFile := Some ''{not json''\<rparr>"

definition photoUpload :: "string \<Rightarrow> ImageRecord" where
  "photoUpload = UploadRecord ''photo.png'' ''img/photo.png'' ''https://cdn.example.com/photo.png''
                   ''https://cdn.example.com/photo.png'' ''a.md'' ''a.md''"

definition cdnSettings :: ImagesR2Settings where
  "cdnSettings =
     \<lparr>accountId = ''acc'', r2Token = ''tok'', bucketName = ''pics'',
      customDomain = ''https://cdn.example.com'', downloadFolder = []\<rparr>"

definition okNet :: network where
  "okNet req =
     Inr \<lparr>respStatus = 200,
          respJson = Some \<lparr>success = True, firstErrorMessage = None, resultDomain = None\<rparr>,
          respArrayBuffer = ''bytes''\<rparr>"

definition uploadHost :: host where
  "uploadHost = quietHost\<lparr>requestUrl := okNet\<rparr>"

definition openState :: state where
  "openState =
     emptyState\<lparr>items := [0], imageItemAt := (\<lambda>a. photoItem Idle None (Some photoPng)),
                nextRef := 1, settings := cdnSettings, currentFilePath := Some ''a.md'',
                leaves := [(Some noteA, ''see ![[photo.png]] here'')], activeLeaf := Some 0\<rparr>"

definition okResponse :: response where
  "okResponse =
     \<lparr>respStatus = 200,
      respJson = Some \<lparr>success = True, firstErrorMessage = None, resultDomain = None\<rparr>,
      respArrayBuffer = ''bytes''\<rparr>"

definition remoteState :: state where
  "remoteState =
     emptyState\<lparr>remoteItems := [0], nextRef := 1, settings := cdnSettings,
                currentFilePath := Some ''a.md'',
                leaves := [(Some noteA, ''![pic](https://example.com/a/b/cat.jpg)'')],
                activeLeaf := Some 0\<rparr>"

definition fullDiskHost :: host where
  "fullDiskHost = uploadHost\<lparr>adapterWriteError := (\<lambda>text. Some ''disk full'')\<rparr>"

definition renamedState :: state where
  "renamedState =
     (trackedState (photoItem Failed (Some ''HTTP 500'') (Some photoPng))
        (catItem Failed (Some ''HTTP 404'')))
       \<lparr>vault := [(''img/photo.png'', FileNode photoPng), (''b.md'', FileNode noteB)]\<rparr>"

section \<open>Properties\<close>

subsection \<open>Auxiliary facts\<close>

lemma length_splitFrom_char:
  "length (splitFrom [c] cur s) = Suc (length (filter (\<lambda>d. d = c) s))"
  by (induction s arbitrary: cur) auto

lemma lineOf_newlines: "lineOf content m = newlinesBefore content (index m)"
  by (simp add: lineOf_def split_def newlinesBefore_def length_splitFrom_char)

lemma filterSeen_firstOccurrences:
  "filterSeen seen ms = firstOccurrences (filter (\<lambda>m. matched m \<notin> seen) ms)"
proof (induction ms arbitrary: seen)
  case Nil
  show ?case by simp
next
  case (Cons m ms)
  show ?case
    by (simp add: Cons.IH conj_commute)
qed

lemma newMap_eq: "newMap kvs = map_of (rev kvs)"
proof -
  have "foldl (\<lambda>m (k, v). m(k \<mapsto> v)) m0 kvs = m0 ++ map_of (rev kvs)" for m0 :: "'a \<rightharpoonup> 'b"
    by (induction kvs arbitrary: m0) (auto simp: map_add_def fun_eq_iff split: option.splits)
  then show ?thesis by (simp add: newMap_def)
qed

lemma newMap_Some:
  "newMap (map (\<lambda>i. (key i, i)) xs) k = Some v \<Longrightarrow> v \<in> set xs \<and> key v = k"
  by (auto simp: newMap_eq dest!: map_of_SomeD)

lemma newMap_None:
  "(newMap (map (\<lambda>i. (key i, i)) xs) k = None) = (k \<notin> key ` set xs)"
  by (simp add: newMap_eq map_of_eq_None_iff image_image)

lemma map_allocate: "map (allocate objs n vs) [n ..< n + length vs] = vs"
  by (auto simp: allocate_def intro!: nth_equalityI)

lemma map_allocate_map:
  "map (allocate objs n (map g ms)) [n ..< n + length ms] = map g ms"
  using map_allocate [of objs n "map g ms"] by simp

lemma localItems_buildItems:
  "localItems (buildItems h f content st) =
     map (localItemOf h (vault st) f content
            (if Some (path f) \<noteq> currentFilePath st then Map.empty
             else newMap (map (\<lambda>i. (fullMatch i, i)) (localItems st))))
       (localMatches content)"
  by (simp add: buildItems_def localItems_def Let_def map_allocate_map)

lemma remoteItemsOf_buildItems:
  "remoteItemsOf (buildItems h f content st) =
     map (remoteItemOf h (settings st) content
            (if Some (path f) \<noteq> currentFilePath st then Map.empty
             else newMap (map (\<lambda>i. (fullMatch i, i)) (remoteItemsOf st))))
       (remoteMatches content)"
  by (simp add: buildItems_def remoteItemsOf_def Let_def map_allocate_map)

lemma fullMatch_localItemOf:
  "(\<And>k old. existing k = Some old \<Longrightarrow> fullMatch old = k) \<Longrightarrow>
   fullMatch (localItemOf h v f content existing m) = matched m"
  by (auto simp: localItemOf_def Let_def split: option.splits)

lemma fullMatch_remoteItemOf:
  "(\<And>k old. existing k = Some old \<Longrightarrow> fullMatch old = k) \<Longrightarrow>
   fullMatch (remoteItemOf h s content existing m) = matched m"
  by (auto simp: remoteItemOf_def Let_def split: option.splits)

lemma line_localItemOf: "line (localItemOf h v f content existing m) = lineOf content m"
  by (auto simp: localItemOf_def Let_def split: option.splits)

lemma line_remoteItemOf: "line (remoteItemOf h s content existing m) = lineOf content m"
  by (auto simp: remoteItemOf_def Let_def split: option.splits)

lemma existing_keys:
  "(if c then Map.empty else newMap (map (\<lambda>i. (fullMatch i, i)) xs)) k = Some old
     \<Longrightarrow> fullMatch old = k"
  by (auto dest: newMap_Some split: if_splits)

lemma localMatches_firstOccurrences:
  "localMatches content = firstOccurrences (matchAll content localRegex)"
  by (simp add: localMatches_def filterSeen_firstOccurrences)

lemma remoteMatches_firstOccurrences:
  "remoteMatches content = firstOccurrences (matchAll content remoteRegex)"
  by (simp add: remoteMatches_def filterSeen_firstOccurrences)

lemma set_firstOccurrences: "set (firstOccurrences ms) \<subseteq> set ms"
  by (induction ms rule: firstOccurrences.induct) auto

lemma distinct_firstOccurrences: "distinct (map matched (firstOccurrences ms))"
proof (induction ms rule: firstOccurrences.induct)
  case 1
  show ?case by simp
next
  case (2 m ms)
  have "matched m \<notin> matched ` set (firstOccurrences (filter (\<lambda>m'. matched m' \<noteq> matched m) ms))"
    using set_firstOccurrences [of "filter (\<lambda>m'. matched m' \<noteq> matched m) ms"] by auto
  with 2 show ?case by simp
qed

lemma matchAllFrom_index:
  "m \<in> set (matchAllFrom r i s) \<Longrightarrow>
   i \<le> index m \<and> take (length (matched m)) (drop (index m - i) s) = matched m"
proof (induction r i s rule: matchAllFrom.induct)
  case (1 r i s)
  show ?case
  proof (cases "rmatch r s []")
    case Nil
    with "1.prems" obtain c cs where s: "s = c # cs" and m: "m \<in> set (matchAllFrom r (Suc i) cs)"
      by (cases s) (auto simp: matchAllFrom.simps [of r i s])
    from "1.IH"(1) [OF Nil s m] have a: "Suc i \<le> index m"
      and b: "take (length (matched m)) (drop (index m - Suc i) cs) = matched m" by auto
    from a have "index m - i = Suc (index m - Suc i)" by arith
    with a b s show ?thesis by simp
  next
    case (Cons p others)
    obtain rest caps where p: "p = (rest, caps)" by (cases p)
    let ?n = "length s - length rest"
    from "1.prems" Cons p
    consider (here) "m = \<lparr>index = i, matched = take ?n s, groups = caps\<rparr>"
      | (later) "s \<noteq> []" "m \<in> set (matchAllFrom r (i + max 1 ?n) (drop (max 1 ?n) s))"
      by (auto simp: matchAllFrom.simps [of r i s] split: if_splits)
    then show ?thesis
    proof cases
      case here
      then show ?thesis by (simp add: min_def)
    next
      case later
      from "1.IH"(2) [OF Cons p [symmetric] later(1) later(2)]
      have a: "i + max 1 ?n \<le> index m"
        and b: "take (length (matched m)) (drop (index m - (i + max 1 ?n)) (drop (max 1 ?n) s))
                = matched m" by auto
      from a have "index m - (i + max 1 ?n) + max 1 ?n = index m - i" by arith
      with a b show ?thesis by (simp add: add.commute)
    qed
  qed
qed

lemma matchAll_index:
  "m \<in> set (matchAll content r) \<Longrightarrow>
   take (length (matched m)) (drop (index m) content) = matched m"
  using matchAllFrom_index [of m r 0 content] by (simp add: matchAll_def)

lemma localItemOf_tracked:
  assumes "matched m \<in> fullMatch ` set prev"
  shows "\<exists>old \<in> set prev. fullMatch old = matched m \<and>
           localItemOf h v f content (newMap (map (\<lambda>i. (fullMatch i, i)) prev)) m
             = old\<lparr>line := lineOf content m\<rparr>"
proof -
  from assms have "newMap (map (\<lambda>i. (fullMatch i, i)) prev) (matched m) \<noteq> None"
    by (simp add: newMap_None)
  then obtain old where o: "newMap (map (\<lambda>i. (fullMatch i, i)) prev) (matched m) = Some old"
    by auto
  from newMap_Some [OF o] o show ?thesis
    by (auto simp: localItemOf_def Let_def)
qed

lemma localItemOf_untracked:
  assumes "matched m \<notin> fullMatch ` set prev"
  shows "localItemOf h v f content (newMap (map (\<lambda>i. (fullMatch i, i)) prev)) m
           = localItemOf h v f content Map.empty m"
  using assms newMap_None [of fullMatch prev "matched m"]
  by (simp add: localItemOf_def)

lemma localItemOf_fresh:
  "status (localItemOf h v f content Map.empty m) = Idle \<and>
   error (localItemOf h v f content Map.empty m) = None \<and>
   imageFile (localItemOf h v f content Map.empty m) = resolveImageFile h v (group m 1) f"
  by (simp add: localItemOf_def Let_def)

lemma remoteItemOf_tracked:
  assumes "matched m \<in> fullMatch ` set prev"
  shows "\<exists>old \<in> set prev. fullMatch old = matched m \<and>
           remoteItemOf h s content (newMap (map (\<lambda>i. (fullMatch i, i)) prev)) m
             = old\<lparr>line := lineOf content m\<rparr>"
proof -
  from assms have "newMap (map (\<lambda>i. (fullMatch i, i)) prev) (matched m) \<noteq> None"
    by (simp add: newMap_None)
  then obtain old where o: "newMap (map (\<lambda>i. (fullMatch i, i)) prev) (matched m) = Some old"
    by auto
  from newMap_Some [OF o] o show ?thesis
    by (auto simp: remoteItemOf_def Let_def)
qed

lemma remoteItemOf_untracked:
  assumes "matched m \<notin> fullMatch ` set prev"
  shows "remoteItemOf h s content (newMap (map (\<lambda>i. (fullMatch i, i)) prev)) m
           = remoteItemOf h s content Map.empty m"
  using assms newMap_None [of fullMatch prev "matched m"]
  by (simp add: remoteItemOf_def)

lemma remoteItemOf_fresh:
  "status (remoteItemOf h s content Map.empty m) = Idle \<and>
   error (remoteItemOf h s content Map.empty m) = None"
  by (simp add: remoteItemOf_def Let_def)

lemma fullMatch_localItems_buildItems:
  "map fullMatch (localItems (buildItems h f content st)) = map matched (localMatches content)"
  by (simp add: localItems_buildItems o_def fullMatch_localItemOf [OF existing_keys])

lemma fullMatch_remoteItems_buildItems:
  "map fullMatch (remoteItemsOf (buildItems h f content st)) = map matched (remoteMatches content)"
  by (simp add: remoteItemsOf_buildItems o_def fullMatch_remoteItemOf [OF existing_keys])

lemma localMatches_sampleText:
  "localMatches sampleText =
     [\<lparr>index = 6, matched = ''![[photo.png]]'', groups = [(1, ''photo.png''), (2, ''png'')]\<rparr>]"
  by code_simp

lemma remoteMatches_sampleText:
  "remoteMatches sampleText =
     [\<lparr>index = 40, matched = ''![pic](https://example.com/a/b/cat.jpg)'',
       groups = [(2, ''https://example.com/a/b/cat.jpg''), (1, ''pic'')]\<rparr>]"
  by code_simp

lemma lineOf_sampleText:
  "lineOf sampleText \<lparr>index = 6, matched = a, groups = b\<rparr> = 1 \<and>
   lineOf sampleText \<lparr>index = 40, matched = c, groups = d\<rparr> = 2"
  by (simp add: lineOf_def sampleText_def split_def)

lemma failedState_lists:
  "localItems failedState = [photoItem Failed (Some ''HTTP 500'') None] \<and>
   remoteItemsOf failedState = [catItem Uploading None] \<and>
   currentFilePath failedState = Some (path noteA)"
  by (simp add: failedState_def trackedState_def emptyState_def localItems_def
      remoteItemsOf_def noteA_def)

lemma fresh_local_idle:
  "\<forall>i \<in> set (map (localItemOf h v f content Map.empty) ms). status i = Idle \<and> error i = None"
  by (simp add: localItemOf_def Let_def)

lemma fresh_remote_idle:
  "\<forall>i \<in> set (map (remoteItemOf h s content Map.empty) ms). status i = Idle \<and> error i = None"
  by (simp add: remoteItemOf_def Let_def)

lemma lastIndexFrom_cases:
  "(c \<notin> set s \<and> lastIndexFrom c i found s = found) \<or>
   (\<exists>k < length s. lastIndexFrom c i found s = int (i + k) \<and> s ! k = c \<and>
      c \<notin> set (drop (Suc k) s))"
proof (induction s arbitrary: i found)
  case Nil
  show ?case by simp
next
  case (Cons d ds)
  from Cons.IH [of "Suc i" "if d = c then int i else found"]
  show ?case
  proof
    assume a: "c \<notin> set ds \<and>
      lastIndexFrom c (Suc i) (if d = c then int i else found) ds = (if d = c then int i else found)"
    show ?thesis
    proof (cases "d = c")
      case True
      with a have "lastIndexFrom c i found (d # ds) = int (i + 0) \<and> (d # ds) ! 0 = c \<and>
                   c \<notin> set (drop (Suc 0) (d # ds))" by simp
      then show ?thesis by blast
    next
      case False
      with a show ?thesis by simp
    qed
  next
    assume "\<exists>k < length ds.
      lastIndexFrom c (Suc i) (if d = c then int i else found) ds = int (Suc i + k) \<and>
      ds ! k = c \<and> c \<notin> set (drop (Suc k) ds)"
    then obtain k where k: "k < length ds"
      "lastIndexFrom c (Suc i) (if d = c then int i else found) ds = int (Suc i + k)"
      "ds ! k = c" "c \<notin> set (drop (Suc k) ds)" by blast
    then have "Suc k < length (d # ds) \<and> lastIndexFrom c i found (d # ds) = int (i + Suc k) \<and>
               (d # ds) ! Suc k = c \<and> c \<notin> set (drop (Suc (Suc k)) (d # ds))" by simp
    then show ?thesis by blast
  qed
qed

lemma lastIndexOf_cases:
  "(c \<notin> set s \<and> lastIndexOf s c = - 1) \<or>
   (\<exists>k < length s. lastIndexOf s c = int k \<and> s ! k = c \<and> c \<notin> set (drop (Suc k) s))"
  using lastIndexFrom_cases [of c s 0 "- 1"] by (simp add: lastIndexOf_def)

lemma load_unreadable:
  assumes "records st = JNull"
    and "recordsFile st = None \<or> (\<exists>raw. recordsFile st = Some raw \<and> JSON_parse h raw = None)"
  shows "load h st = (JArray [], st\<lparr>records := JArray []\<rparr>)"
  using assms by (auto simp: load_def Let_def)

lemma addRecord_array:
  assumes "records st = JArray rs"
  shows "addRecord h mk st =
           (case adapterWriteError h (JSON_stringify h (JArray (rs @ [mk (toISOString h)]))) of
              Some e \<Rightarrow> (Some e, st\<lparr>records := JArray (rs @ [mk (toISOString h)])\<rparr>)
            | None \<Rightarrow>
                (None, st\<lparr>records := JArray (rs @ [mk (toISOString h)]),
                          recordsFile :=
                            Some (JSON_stringify h (JArray (rs @ [mk (toISOString h)])))\<rparr>))"
  using assms by (simp add: addRecord_def load_def save_def Let_def split: option.splits)

lemma addRecord_unreadable:
  assumes "records st = JNull"
    and "recordsFile st = None \<or> (\<exists>raw. recordsFile st = Some raw \<and> JSON_parse h raw = None)"
  shows "addRecord h mk st =
           (case adapterWriteError h (JSON_stringify h (JArray [mk (toISOString h)])) of
              Some e \<Rightarrow> (Some e, st\<lparr>records := JArray [mk (toISOString h)]\<rparr>)
            | None \<Rightarrow>
                (None, st\<lparr>records := JArray [mk (toISOString h)],
                          recordsFile := Some (JSON_stringify h (JArray [mk (toISOString h)]))\<rparr>))"
  using load_unreadable [OF assms]
  by (simp add: addRecord_def save_def Let_def split: option.splits)

lemma appendAll_snoc:
  "appendAll h (mks @ [mk]) st = snd (addRecord h mk (appendAll h mks st))"
  by (simp add: appendAll_def)

lemma appendAll_records:
  assumes "records st = JNull"
    and "recordsFile st = None \<or> (\<exists>raw. recordsFile st = Some raw \<and> JSON_parse h raw = None)"
  shows "records (appendAll h (mks @ [mk]) st) = stamped h (mks @ [mk])"
proof (induction mks arbitrary: mk rule: rev_induct)
  case Nil
  show ?case
    using addRecord_unreadable [OF assms, of mk]
    by (simp add: appendAll_def stamped_def split: option.splits)
next
  case (snoc m ms)
  from snoc [of m] have r: "records (appendAll h (ms @ [m]) st)
      = JArray (map (\<lambda>mk. mk (toISOString h)) (ms @ [m]))"
    by (simp add: stamped_def)
  have "records (snd (addRecord h mk (appendAll h (ms @ [m]) st)))
          = JArray (map (\<lambda>mk. mk (toISOString h)) (ms @ [m]) @ [mk (toISOString h)])"
    using addRecord_array [OF r, of h mk] by (simp split: option.splits)
  then show ?case
    unfolding appendAll_snoc [of h "ms @ [m]" mk st] by (simp add: stamped_def)
qed

lemma detached_addRecord_keeps:
  "imageItemAt (detached (addRecord h mk st)) = imageItemAt st \<and>
   remoteItemAt (detached (addRecord h mk st)) = remoteItemAt st \<and>
   items (detached (addRecord h mk st)) = items st \<and>
   remoteItems (detached (addRecord h mk st)) = remoteItems st \<and>
   leaves (detached (addRecord h mk st)) = leaves st \<and>
   timers (detached (addRecord h mk st)) = timers st \<and>
   nextTimer (detached (addRecord h mk st)) = nextTimer st \<and>
   vault (detached (addRecord h mk st)) = vault st"
  by (simp add: detached_def addRecord_def load_def save_def Let_def
      split: option.splits jsonValue.splits prod.splits)

lemma addRecord_write_fails:
  assumes "\<forall>text. adapterWriteError h text \<noteq> None"
  shows "fst (addRecord h mk st) \<noteq> None \<and>
         recordsFile (snd (addRecord h mk st)) = recordsFile st"
proof -
  obtain v st1 where l: "load h st = (v, st1)" by (cases "load h st")
  then have f: "recordsFile st1 = recordsFile st"
    by (auto simp: load_def Let_def split: if_splits)
  show ?thesis
  proof (cases v)
    case (JArray rs)
    from assms obtain e where
      "adapterWriteError h (JSON_stringify h (JArray (rs @ [mk (toISOString h)]))) = Some e"
      by (meson option.exhaust)
    with l JArray f show ?thesis
      by (simp add: addRecord_def save_def)
  next
    case JNull
    with l f show ?thesis by (simp add: addRecord_def)
  next
    case JOther
    with l f show ?thesis by (simp add: addRecord_def)
  qed
qed

lemma detached_write_fails:
  assumes "\<forall>text. adapterWriteError h text \<noteq> None"
  shows "recordsFile (detached (addRecord h mk st)) = recordsFile st \<and>
         length (rejections (detached (addRecord h mk st))) = Suc (length (rejections st))"
proof -
  obtain r st1 where a: "addRecord h mk st = (r, st1)" by (cases "addRecord h mk st")
  from addRecord_write_fails [OF assms, of mk st] a obtain e where r: "r = Some e"
    and f: "recordsFile st1 = recordsFile st" by auto
  have "rejections st1 = rejections st"
    using a by (auto simp: addRecord_def load_def save_def Let_def
        split: option.splits jsonValue.splits prod.splits if_splits)
  with a r f show ?thesis by (simp add: detached_def)
qed

lemma upload_success_url:
  assumes "fst (uploadImageFile h s fo baseUrl) = UploadSuccess u"
  shows "\<exists>f. fo = Some f \<and> u = baseUrl @ ''/'' @ encodeURIComponent (name f)"
  using assms
  by (auto simp: uploadImageFile_def Let_def split: if_splits option.splits sum.splits)

lemma uploadItem_resolved:
  assumes "imageFile (imageItemAt st item) \<noteq> None"
    and "resolveBaseUrl (settings st) (requestUrl h) = (Some b, reqs)"
    and "b \<noteq> []"
  shows "uploadItem h item activeFile st
           = doUpload h item activeFile b (st\<lparr>sent := sent st @ reqs\<rparr>)"
  using assms by (auto simp: uploadItem_def resolveBase_def)

lemma end_to_end_upload:
  "fst (uploadItem uploadHost 0 noteA openState) = None \<and>
   leaves (snd (uploadItem uploadHost 0 noteA openState))
     = [(Some noteA, ''see ![photo.png](https://cdn.example.com/photo.png) here'')] \<and>
   records (snd (uploadItem uploadHost 0 noteA openState))
     = JArray [UploadRecord ''photo.png'' ''img/photo.png'' ''https://cdn.example.com/photo.png''
                 ''https://cdn.example.com/photo.png'' ''a.md'' ''a.md''
                 ''2026-01-01T00:00:00.000Z''] \<and>
   status (imageItemAt (snd (uploadItem uploadHost 0 noteA openState)) 0) = Done \<and>
   timers (snd (uploadItem uploadHost 0 noteA openState)) = [(1, 1000, RemoveUploaded 0 noteA)]"
  by code_simp

lemma download_write_fails:
  assumes "fetched h st item activeFile resp ensured savePath"
    and "createBinary h ensured savePath (respArrayBuffer resp) = Inl e"
  shows "status (remoteItemAt (doDownload h item activeFile st) item) = Failed \<and>
         error (remoteItemAt (doDownload h item activeFile st) item) = Some e"
  using assms
  by (simp add: fetched_def doDownload_def Let_def setRemoteStatus_def setRemoteError_def
      failRemote_def)

lemma download_not_saved:
  assumes "fetched h st item activeFile resp ensured savePath"
    and "createBinary h ensured savePath (respArrayBuffer resp) = Inr written"
    and "\<forall>f. getAbstractFileByPath written savePath \<noteq> Some (FileNode f)"
  shows "status (remoteItemAt (doDownload h item activeFile st) item) = Failed \<and>
         error (remoteItemAt (doDownload h item activeFile st) item) = Some ''File not saved''"
  using assms
  by (simp add: fetched_def doDownload_def Let_def setRemoteStatus_def setRemoteError_def
      failRemote_def split: option.splits node.splits)

lemma download_rewrite_fails:
  assumes "fetched h st item activeFile resp ensured savePath"
    and "createBinary h ensured savePath (respArrayBuffer resp) = Inr written"
    and "getAbstractFileByPath written savePath = Some (FileNode saved)"
    and "rewriteEditor h (leaves st) activeFile (fullMatch (remoteItemAt st item))
           (''![['' @ name saved @ '']]'') = Inl e"
  shows "status (remoteItemAt (doDownload h item activeFile st) item) = Failed \<and>
         error (remoteItemAt (doDownload h item activeFile st) item) = Some e"
  using assms
  by (simp add: fetched_def doDownload_def Let_def setRemoteStatus_def setRemoteError_def
      failRemote_def)

lemma download_done:
  assumes "fetched h st item activeFile resp ensured savePath"
    and "createBinary h ensured savePath (respArrayBuffer resp) = Inr written"
    and "getAbstractFileByPath written savePath = Some (FileNode saved)"
    and "rewriteEditor h (leaves st) activeFile (fullMatch (remoteItemAt st item))
           (''![['' @ name saved @ '']]'') = Inr rewritten"
  shows "status (remoteItemAt (doDownload h item activeFile st) item) = Done \<and>
         error (remoteItemAt (doDownload h item activeFile st) item) = None \<and>
         ((\<forall>text. adapterWriteError h text \<noteq> None) \<longrightarrow>
            recordsFile (doDownload h item activeFile st) = recordsFile st \<and>
            length (rejections (doDownload h item activeFile st))
              = Suc (length (rejections st)))"
  using assms
  by (simp add: fetched_def doDownload_def Let_def setRemoteStatus_def setRemoteError_def
      setTimeout_def addDownload_def detached_addRecord_keeps detached_write_fails)

lemma upload_done:
  assumes "fst (uploadImageFile h (settings st) (imageFile (imageItemAt st item)) baseUrl)
             = UploadSuccess u"
    and "rewriteEditor h (leaves st) activeFile (fullMatch (imageItemAt st item))
           (''!['' @ fileName (imageItemAt st item) @ '']('' @ u @ '')'') = Inr rewritten"
  shows "fst (doUpload h item activeFile baseUrl st) = None \<and>
         status (imageItemAt (snd (doUpload h item activeFile baseUrl st)) item) = Done \<and>
         error (imageItemAt (snd (doUpload h item activeFile baseUrl st)) item) = None \<and>
         ((\<forall>text. adapterWriteError h text \<noteq> None) \<longrightarrow>
            recordsFile (snd (doUpload h item activeFile baseUrl st)) = recordsFile st \<and>
            length (rejections (snd (doUpload h item activeFile baseUrl st)))
              = Suc (length (rejections st)))"
proof -
  from upload_success_url [OF assms(1)]
  obtain f where f: "imageFile (imageItemAt st item) = Some f" by auto
  obtain reqs where u: "uploadImageFile h (settings st) (Some f) baseUrl = (UploadSuccess u, reqs)"
    using assms(1) f by (cases "uploadImageFile h (settings st) (Some f) baseUrl") simp
  show ?thesis
    using assms(2)
    by (simp add: doUpload_def Let_def setStatus_def setError_def u f setTimeout_def
        addUpload_def detached_addRecord_keeps detached_write_fails)
qed

lemma refreshCurrentFile_vanished:
  assumes "currentFilePath st = Some p" and "p \<noteq> []"
    and "\<forall>f. getAbstractFileByPath (vault st) p \<noteq> Some (FileNode f)"
  shows "refreshCurrentFile h st = st\<lparr>currentFilePath := None\<rparr>"
  using assms by (simp add: refreshCurrentFile_def split: option.splits node.splits)

lemma refresh_vanished:
  assumes "activeMarkdown st = None" and "currentFilePath st = Some p" and "p \<noteq> []"
    and "\<forall>f. getAbstractFileByPath (vault st) p \<noteq> Some (FileNode f)"
  shows "refresh h st = st\<lparr>currentFilePath := None\<rparr>"
  using assms refreshCurrentFile_vanished [of st p h] by (simp add: refresh_def)

subsection \<open>The claims\<close>

text \<open>
  C1, as amended. For every re-extraction over the same document, the raw texts of the
  rebuilt lists are exactly the deduplicated matches of the text, in their order. A
  match whose raw text was tracked becomes a previous item with that raw text in which
  only the line is replaced: status, error message, file handle and every other field
  are kept, and the file is not resolved again. A match that was not tracked becomes a
  new item with status idle and no error. A previous item whose raw text no longer
  occurs has no item in the rebuilt lists.
\<close>

theorem reconcile_same_document:
  assumes same: "currentFilePath st = Some (path f)"
  shows
   "map fullMatch (localItems (buildItems h f content st)) = map matched (localMatches content) \<and>
    map fullMatch (remoteItemsOf (buildItems h f content st))
      = map matched (remoteMatches content) \<and>
    (\<forall>j < length (localMatches content).
       (matched (localMatches content ! j) \<in> fullMatch ` set (localItems st) \<longrightarrow>
          (\<exists>old \<in> set (localItems st).
             fullMatch old = matched (localMatches content ! j) \<and>
             localItems (buildItems h f content st) ! j
               = old\<lparr>line := lineOf content (localMatches content ! j)\<rparr>)) \<and>
       (matched (localMatches content ! j) \<notin> fullMatch ` set (localItems st) \<longrightarrow>
          localItems (buildItems h f content st) ! j
            = localItemOf h (vault st) f content Map.empty (localMatches content ! j) \<and>
          status (localItems (buildItems h f content st) ! j) = Idle \<and>
          error (localItems (buildItems h f content st) ! j) = None)) \<and>
    (\<forall>j < length (remoteMatches content).
       (matched (remoteMatches content ! j) \<in> fullMatch ` set (remoteItemsOf st) \<longrightarrow>
          (\<exists>old \<in> set (remoteItemsOf st).
             fullMatch old = matched (remoteMatches content ! j) \<and>
             remoteItemsOf (buildItems h f content st) ! j
               = old\<lparr>line := lineOf content (remoteMatches content ! j)\<rparr>)) \<and>
       (matched (remoteMatches content ! j) \<notin> fullMatch ` set (remoteItemsOf st) \<longrightarrow>
          remoteItemsOf (buildItems h f content st) ! j
            = remoteItemOf h (settings st) content Map.empty (remoteMatches content ! j) \<and>
          status (remoteItemsOf (buildItems h f content st) ! j) = Idle \<and>
          error (remoteItemsOf (buildItems h f content st) ! j) = None)) \<and>
    (\<forall>old \<in> set (localItems st).
       fullMatch old \<notin> matched ` set (localMatches content) \<longrightarrow>
       fullMatch old \<notin> fullMatch ` set (localItems (buildItems h f content st))) \<and>
    (\<forall>old \<in> set (remoteItemsOf st).
       fullMatch old \<notin> matched ` set (remoteMatches content) \<longrightarrow>
       fullMatch old \<notin> fullMatch ` set (remoteItemsOf (buildItems h f content st)))"
proof -
  have l: "localItems (buildItems h f content st) ! j =
             localItemOf h (vault st) f content
               (newMap (map (\<lambda>i. (fullMatch i, i)) (localItems st))) (localMatches content ! j)"
    if "j < length (localMatches content)" for j
    using that same by (simp add: localItems_buildItems)
  have r: "remoteItemsOf (buildItems h f content st) ! j =
             remoteItemOf h (settings st) content
               (newMap (map (\<lambda>i. (fullMatch i, i)) (remoteItemsOf st))) (remoteMatches content ! j)"
    if "j < length (remoteMatches content)" for j
    using that same by (simp add: remoteItemsOf_buildItems)
  have c3: "\<forall>j < length (localMatches content).
       (matched (localMatches content ! j) \<in> fullMatch ` set (localItems st) \<longrightarrow>
          (\<exists>old \<in> set (localItems st).
             fullMatch old = matched (localMatches content ! j) \<and>
             localItems (buildItems h f content st) ! j
               = old\<lparr>line := lineOf content (localMatches content ! j)\<rparr>)) \<and>
       (matched (localMatches content ! j) \<notin> fullMatch ` set (localItems st) \<longrightarrow>
          localItems (buildItems h f content st) ! j
            = localItemOf h (vault st) f content Map.empty (localMatches content ! j) \<and>
          status (localItems (buildItems h f content st) ! j) = Idle \<and>
          error (localItems (buildItems h f content st) ! j) = None)"
    using localItemOf_tracked [of _ "localItems st" h "vault st" f content]
    by (simp add: l localItemOf_untracked localItemOf_fresh)
  have c4: "\<forall>j < length (remoteMatches content).
       (matched (remoteMatches content ! j) \<in> fullMatch ` set (remoteItemsOf st) \<longrightarrow>
          (\<exists>old \<in> set (remoteItemsOf st).
             fullMatch old = matched (remoteMatches content ! j) \<and>
             remoteItemsOf (buildItems h f content st) ! j
               = old\<lparr>line := lineOf content (remoteMatches content ! j)\<rparr>)) \<and>
       (matched (remoteMatches content ! j) \<notin> fullMatch ` set (remoteItemsOf st) \<longrightarrow>
          remoteItemsOf (buildItems h f content st) ! j
            = remoteItemOf h (settings st) content Map.empty (remoteMatches content ! j) \<and>
          status (remoteItemsOf (buildItems h f content st) ! j) = Idle \<and>
          error (remoteItemsOf (buildItems h f content st) ! j) = None)"
    using remoteItemOf_tracked [of _ "remoteItemsOf st" h "settings st" content]
    by (simp add: r remoteItemOf_untracked remoteItemOf_fresh)
  have c5: "\<forall>old \<in> set (localItems st).
       fullMatch old \<notin> matched ` set (localMatches content) \<longrightarrow>
       fullMatch old \<notin> fullMatch ` set (localItems (buildItems h f content st))"
    using arg_cong [OF fullMatch_localItems_buildItems [of h f content st], of set] by simp
  have c6: "\<forall>old \<in> set (remoteItemsOf st).
       fullMatch old \<notin> matched ` set (remoteMatches content) \<longrightarrow>
       fullMatch old \<notin> fullMatch ` set (remoteItemsOf (buildItems h f content st))"
    using arg_cong [OF fullMatch_remoteItems_buildItems [of h f content st], of set] by simp
  from fullMatch_localItems_buildItems fullMatch_remoteItems_buildItems c3 c4 c5 c6
  show ?thesis by blast
qed

theorem reconcile_same_document_witness:
  "localItems (buildItems quietHost noteA sampleText failedState)
     = [(photoItem Failed (Some ''HTTP 500'') None)\<lparr>line := 1\<rparr>] \<and>
   remoteItemsOf (buildItems quietHost noteA sampleText failedState)
     = [(catItem Uploading None)\<lparr>line := 2\<rparr>]"
proof -
  have same: "currentFilePath failedState = Some (path noteA)"
    by (simp add: failedState_lists)
  have ll: "length (localItems (buildItems quietHost noteA sampleText failedState)) = 1"
    using arg_cong [OF fullMatch_localItems_buildItems
        [of quietHost noteA sampleText failedState], of length]
    by (simp add: localMatches_sampleText)
  have lr: "length (remoteItemsOf (buildItems quietHost noteA sampleText failedState)) = 1"
    using arg_cong [OF fullMatch_remoteItems_buildItems
        [of quietHost noteA sampleText failedState], of length]
    by (simp add: remoteMatches_sampleText)
  from reconcile_same_document [OF same, of quietHost sampleText]
  have "localItems (buildItems quietHost noteA sampleText failedState) ! 0
          = (photoItem Failed (Some ''HTTP 500'') None)\<lparr>line := 1\<rparr> \<and>
        remoteItemsOf (buildItems quietHost noteA sampleText failedState) ! 0
          = (catItem Uploading None)\<lparr>line := 2\<rparr>"
    by (simp add: localMatches_sampleText remoteMatches_sampleText failedState_lists
        lineOf_sampleText photoItem_def catItem_def)
  with ll lr show ?thesis
    by (metis One_nat_def length_0_conv length_Suc_conv nth_Cons_0)
qed

text \<open>
  The claim as stated also has the file handle of a tracked match refreshed. It is
  not: here the tracked item has no file, the vault now resolves \<^verbatim>\<open>photo.png\<close>, and
  the rebuilt item still has no file.
\<close>

theorem reconcile_file_handle_counterexample:
  "currentFilePath failedState = Some (path noteA) \<and>
   map fullMatch (localItems failedState) = map matched (localMatches sampleText) \<and>
   resolveImageFile quietHost (vault failedState) ''photo.png'' noteA = Some photoPng \<and>
   map imageFile (localItems (buildItems quietHost noteA sampleText failedState)) = [None]"
  by code_simp

text \<open>
  C2, as amended. A content-changed notification that arrives while an item of either
  list is transferring changes nothing at all: no item, no list and no timer. It is
  discarded, not deferred. A notification that arrives while no item is transferring
  cancels the pending refresh, if there is one, and schedules one refresh from the
  editor 800 ms later; the lists are not rebuilt at that moment.
\<close>

theorem editor_change_guard:
  "(list_ex (\<lambda>i. status i = Uploading) (localItems st) \<or>
    list_ex (\<lambda>i. status i = Uploading) (remoteItemsOf st) \<longrightarrow>
      onEditorChange st = st) \<and>
   (\<not> list_ex (\<lambda>i. status i = Uploading) (localItems st) \<and>
    \<not> list_ex (\<lambda>i. status i = Uploading) (remoteItemsOf st) \<longrightarrow>
      refreshTimer (onEditorChange st) = Some (nextTimer st) \<and>
      timers (onEditorChange st)
        = filter (\<lambda>(t, d, act). refreshTimer st = Some 0 \<or> refreshTimer st \<noteq> Some t) (timers st)
          @ [(nextTimer st, 800, RefreshFromEditor)] \<and>
      localItems (onEditorChange st) = localItems st \<and>
      remoteItemsOf (onEditorChange st) = remoteItemsOf st)"
proof -
  have f: "filter (\<lambda>(t', d, act). t' \<noteq> t) ts
             = filter (\<lambda>(t', d, act). Some t = Some (0::nat) \<or> Some t \<noteq> Some t') ts" if "t \<noteq> 0"
    for t and ts :: "(nat \<times> nat \<times> timerAction) list"
    using that by (intro filter_cong) auto
  show ?thesis
    by (auto simp: onEditorChange_def setTimeout_def clearTimeout_def Let_def localItems_def
        remoteItemsOf_def f split: option.splits)
qed

theorem editor_change_guard_witness:
  "list_ex (\<lambda>i. status i = Uploading) (remoteItemsOf failedState) \<and>
   onEditorChange failedState = failedState \<and>
   \<not> list_ex (\<lambda>i. status i = Uploading) (localItems emptyState) \<and>
   \<not> list_ex (\<lambda>i. status i = Uploading) (remoteItemsOf emptyState) \<and>
   timers (onEditorChange emptyState) = [(1, 800, RefreshFromEditor)] \<and>
   refreshTimer (onEditorChange emptyState) = Some 1"
proof -
  have a: "list_ex (\<lambda>i. status i = Uploading) (remoteItemsOf failedState)"
    by (simp add: failedState_lists catItem_def)
  have b: "\<not> list_ex (\<lambda>i. status i = Uploading) (localItems emptyState) \<and>
           \<not> list_ex (\<lambda>i. status i = Uploading) (remoteItemsOf emptyState)"
    by (simp add: emptyState_def localItems_def remoteItemsOf_def)
  have c: "timers emptyState = [] \<and> nextTimer emptyState = 1 \<and> refreshTimer emptyState = None"
    by (simp add: emptyState_def)
  show ?thesis
    using editor_change_guard [of failedState] editor_change_guard [of emptyState] a b c
    by simp
qed

text \<open>
  The claim as stated has the suppressed notification deferred until no transfer is
  in flight. Here an item is transferring and no timer is pending; after the
  notification still none is, so no rebuild will follow it.
\<close>

theorem editor_change_deferred_counterexample:
  "list_ex (\<lambda>i. status i = Uploading) (remoteItemsOf failedState) \<and>
   timers (onEditorChange failedState) = [] \<and>
   refreshTimer (onEditorChange failedState) = None"
  by (simp add: onEditorChange_def failedState_lists catItem_def)
    (simp add: failedState_def trackedState_def emptyState_def)

text \<open>
  C3. A document switch, to another document or to none, is to clear both tracked
  lists and carry nothing forward. \<^verbatim>\<open>refreshCurrentFile\<close> does not: when the file of
  the tracked path is gone it resets the tracked path to none and keeps both lists,
  where \<^verbatim>\<open>refreshForFile\<close> empties them with the same reset. Here the tracked note
  was renamed, no markdown view is active, and both lists hold a failed item: after
  \<^verbatim>\<open>refresh\<close> no document is tracked and both failed items are still in the lists.
\<close>

theorem refresh_keeps_lists_of_vanished_file:
  "currentFilePath renamedState = Some ''a.md'' \<and>
   getAbstractFileByPath (vault renamedState) ''a.md'' = None \<and>
   activeMarkdown renamedState = None \<and>
   currentFilePath (refresh quietHost renamedState) = None \<and>
   items (refresh quietHost renamedState) = [0] \<and>
   remoteItems (refresh quietHost renamedState) = [1] \<and>
   map (\<lambda>i. (status i, error i)) (localItems (refresh quietHost renamedState))
     = [(Failed, Some ''HTTP 500'')] \<and>
   map (\<lambda>i. (status i, error i)) (remoteItemsOf (refresh quietHost renamedState))
     = [(Failed, Some ''HTTP 404'')] \<and>
   items (refreshForFile quietHost None renamedState) = [] \<and>
   remoteItems (refreshForFile quietHost None renamedState) = []"
proof -
  have a: "currentFilePath renamedState = Some ''a.md'' \<and>
           getAbstractFileByPath (vault renamedState) ''a.md'' = None \<and>
           activeMarkdown renamedState = None"
    by (simp add: renamedState_def trackedState_def emptyState_def getAbstractFileByPath_def
        activeMarkdown_def)
  have b: "items renamedState = [0] \<and> remoteItems renamedState = [1] \<and>
           localItems renamedState = [photoItem Failed (Some ''HTTP 500'') (Some photoPng)] \<and>
           remoteItemsOf renamedState = [catItem Failed (Some ''HTTP 404'')]"
    by (simp add: renamedState_def trackedState_def emptyState_def localItems_def
        remoteItemsOf_def)
  from a have r: "refresh quietHost renamedState = renamedState\<lparr>currentFilePath := None\<rparr>"
    by (intro refresh_vanished [of _ "''a.md''"]) simp_all
  have c: "localItems (renamedState\<lparr>currentFilePath := None\<rparr>) = localItems renamedState \<and>
           remoteItemsOf (renamedState\<lparr>currentFilePath := None\<rparr>) = remoteItemsOf renamedState"
    by (simp add: localItems_def remoteItemsOf_def)
  show ?thesis
    using a
    by (simp add: r b c refreshForFile_def photoItem_def catItem_def)
qed

text \<open>
  On the other paths the lists are cleared. The handler of \<^verbatim>\<open>file-open\<close> empties both
  lists for no document and for a file that is not markdown; for a markdown file it
  runs \<^verbatim>\<open>buildItems\<close> on the text read, and \<^verbatim>\<open>buildItems\<close> for a path other than the
  tracked one builds both lists from the matches alone, with the empty map of previous
  items: every item is idle and has no error, whatever the status of the items tracked
  before.
\<close>

theorem document_switch:
  "items (refreshForFile h None st) = [] \<and>
   remoteItems (refreshForFile h None st) = [] \<and>
   currentFilePath (refreshForFile h None st) = None \<and>
   (extension f \<noteq> ''md'' \<longrightarrow>
      items (refreshForFile h (Some f) st) = [] \<and>
      remoteItems (refreshForFile h (Some f) st) = [] \<and>
      currentFilePath (refreshForFile h (Some f) st) = None) \<and>
   (extension f = ''md'' \<and> cachedRead h f = Inr content \<longrightarrow>
      refreshForFile h (Some f) st = buildItems h f content st) \<and>
   (Some (path f) \<noteq> currentFilePath st \<longrightarrow>
      localItems (buildItems h f content st)
        = map (localItemOf h (vault st) f content Map.empty) (localMatches content) \<and>
      remoteItemsOf (buildItems h f content st)
        = map (remoteItemOf h (settings st) content Map.empty) (remoteMatches content) \<and>
      (\<forall>i \<in> set (localItems (buildItems h f content st)). status i = Idle \<and> error i = None) \<and>
      (\<forall>i \<in> set (remoteItemsOf (buildItems h f content st)).
         status i = Idle \<and> error i = None))"
proof -
  have a: "items (refreshForFile h None st) = [] \<and>
           remoteItems (refreshForFile h None st) = [] \<and>
           currentFilePath (refreshForFile h None st) = None"
    by (simp add: refreshForFile_def)
  have b: "extension f \<noteq> ''md'' \<longrightarrow>
      items (refreshForFile h (Some f) st) = [] \<and>
      remoteItems (refreshForFile h (Some f) st) = [] \<and>
      currentFilePath (refreshForFile h (Some f) st) = None"
    by (simp add: refreshForFile_def)
  have c: "extension f = ''md'' \<and> cachedRead h f = Inr content \<longrightarrow>
      refreshForFile h (Some f) st = buildItems h f content st"
    by (simp add: refreshForFile_def)
  have d: "Some (path f) \<noteq> currentFilePath st \<longrightarrow>
      localItems (buildItems h f content st)
        = map (localItemOf h (vault st) f content Map.empty) (localMatches content) \<and>
      remoteItemsOf (buildItems h f content st)
        = map (remoteItemOf h (settings st) content Map.empty) (remoteMatches content) \<and>
      (\<forall>i \<in> set (localItems (buildItems h f content st)). status i = Idle \<and> error i = None) \<and>
      (\<forall>i \<in> set (remoteItemsOf (buildItems h f content st)).
         status i = Idle \<and> error i = None)"
    using fresh_local_idle [of h "vault st" f content "localMatches content"]
      fresh_remote_idle [of h "settings st" content "remoteMatches content"]
    by (simp add: localItems_buildItems remoteItemsOf_buildItems)
  from a b c d show ?thesis by blast
qed

theorem document_switch_witness:
  "map status (localItems failedState) = [Failed] \<and>
   map (\<lambda>i. (fullMatch i, status i, error i))
       (localItems (refreshForFile readingHost (Some noteB) failedState))
     = [(''![[photo.png]]'', Idle, None)] \<and>
   map (\<lambda>i. (fullMatch i, status i, error i))
       (remoteItemsOf (refreshForFile readingHost (Some noteB) failedState))
     = [(''![pic](https://example.com/a/b/cat.jpg)'', Idle, None)] \<and>
   items (refreshForFile readingHost None failedState) = [] \<and>
   remoteItems (refreshForFile readingHost None failedState) = []"
proof -
  have p: "Some (path noteB) \<noteq> currentFilePath failedState"
    by (simp add: failedState_lists noteA_def noteB_def)
  have q: "extension noteB = ''md'' \<and> cachedRead readingHost noteB = Inr sampleText"
    by (simp add: noteB_def readingHost_def)
  show ?thesis
    using document_switch [of readingHost failedState noteB sampleText] p q
    by (simp add: localMatches_sampleText remoteMatches_sampleText failedState_lists
        localItemOf_def remoteItemOf_def photoItem_def Let_def)
qed

text \<open>
  C4. Extraction is a function of the text alone: whatever the state and the host, the
  raw texts and line numbers of the lists that \<^verbatim>\<open>buildItems\<close> builds are those of the
  matches of the text, deduplicated by raw text with the first occurrence kept, each
  with the number of newline characters before its start; the raw texts are distinct,
  and the start of a match is the position where its raw text stands in the text.
\<close>

theorem extraction_pure:
  "map (\<lambda>i. (fullMatch i, line i)) (localItems (buildItems h f content st))
     = map (\<lambda>m. (matched m, newlinesBefore content (index m)))
         (firstOccurrences (matchAll content localRegex)) \<and>
   map (\<lambda>i. (fullMatch i, line i)) (remoteItemsOf (buildItems h f content st))
     = map (\<lambda>m. (matched m, newlinesBefore content (index m)))
         (firstOccurrences (matchAll content remoteRegex)) \<and>
   distinct (map fullMatch (localItems (buildItems h f content st))) \<and>
   distinct (map fullMatch (remoteItemsOf (buildItems h f content st))) \<and>
   (\<forall>m \<in> set (matchAll content localRegex) \<union> set (matchAll content remoteRegex).
      take (length (matched m)) (drop (index m) content) = matched m)"
proof -
  have ix: "\<forall>m \<in> set (matchAll content localRegex) \<union> set (matchAll content remoteRegex).
      take (length (matched m)) (drop (index m) content) = matched m"
    by (auto simp: matchAll_index)
  have l: "map (\<lambda>i. (fullMatch i, line i)) (localItems (buildItems h f content st))
     = map (\<lambda>m. (matched m, newlinesBefore content (index m)))
         (firstOccurrences (matchAll content localRegex))"
    by (simp add: localItems_buildItems localMatches_firstOccurrences o_def
        fullMatch_localItemOf [OF existing_keys] line_localItemOf lineOf_newlines)
  have r: "map (\<lambda>i. (fullMatch i, line i)) (remoteItemsOf (buildItems h f content st))
     = map (\<lambda>m. (matched m, newlinesBefore content (index m)))
         (firstOccurrences (matchAll content remoteRegex))"
    by (simp add: remoteItemsOf_buildItems remoteMatches_firstOccurrences o_def
        fullMatch_remoteItemOf [OF existing_keys] line_remoteItemOf lineOf_newlines)
  have dl: "distinct (map fullMatch (localItems (buildItems h f content st)))"
    using arg_cong [OF l, of "map fst"] distinct_firstOccurrences [of "matchAll content localRegex"]
    by (simp add: o_def)
  have dr: "distinct (map fullMatch (remoteItemsOf (buildItems h f content st)))"
    using arg_cong [OF r, of "map fst"] distinct_firstOccurrences [of "matchAll content remoteRegex"]
    by (simp add: o_def)
  from l r dl dr ix show ?thesis by simp
qed

theorem extraction_pure_witness:
  "map (\<lambda>i. (fullMatch i, line i)) (localItems (buildItems quietHost noteA sampleText emptyState))
     = [(''![[photo.png]]'', 1)] \<and>
   map (\<lambda>i. (fullMatch i, line i))
       (remoteItemsOf (buildItems quietHost noteA sampleText emptyState))
     = [(''![pic](https://example.com/a/b/cat.jpg)'', 2)]"
proof -
  have l: "map (\<lambda>m. (matched m, newlinesBefore sampleText (index m)))
             (firstOccurrences (matchAll sampleText localRegex)) = [(''![[photo.png]]'', 1)]"
    by code_simp
  have r: "map (\<lambda>m. (matched m, newlinesBefore sampleText (index m)))
             (firstOccurrences (matchAll sampleText remoteRegex))
           = [(''![pic](https://example.com/a/b/cat.jpg)'', 2)]"
    by code_simp
  show ?thesis
    using extraction_pure [of quietHost noteA sampleText emptyState] by (simp only: l r)
qed

text \<open>
  C5. An upload that succeeds returns the base URL it was given, then \<^verbatim>\<open>/\<close>, then the
  URL-encoded name of the file, which is the object key: nothing of the answer of the
  store enters the URL, so two successful uploads of the same file to the same base
  return the same URL whatever the store answered. The view passes the base URL that
  \<^verbatim>\<open>resolveBaseUrl\<close> returned.
\<close>

theorem upload_public_url:
  "(fst (uploadImageFile h s fo baseUrl) = UploadSuccess u \<longrightarrow>
      (\<exists>f. fo = Some f \<and> u = baseUrl @ ''/'' @ encodeURIComponent (name f))) \<and>
   (fst (uploadImageFile h s fo baseUrl) = UploadSuccess u \<and>
    fst (uploadImageFile h' s' fo baseUrl) = UploadSuccess u' \<longrightarrow> u = u') \<and>
   (imageFile (imageItemAt st item) \<noteq> None \<and>
    resolveBaseUrl (settings st) (requestUrl h) = (Some b, reqs) \<and> b \<noteq> [] \<longrightarrow>
      uploadItem h item activeFile st
        = doUpload h item activeFile b (st\<lparr>sent := sent st @ reqs\<rparr>))"
  using upload_success_url [of h s fo baseUrl u] upload_success_url [of h' s' fo baseUrl u']
    uploadItem_resolved [of st item h b reqs activeFile]
  by auto

theorem upload_public_url_witness:
  "fst (uploadImageFile uploadHost cdnSettings (Some photoPng) ''https://cdn.example.com'')
     = UploadSuccess ''https://cdn.example.com/photo.png'' \<and>
   ''https://cdn.example.com/photo.png''
     = ''https://cdn.example.com'' @ ''/'' @ encodeURIComponent (name photoPng) \<and>
   leaves (snd (uploadItem uploadHost 0 noteA openState))
     = [(Some noteA, ''see ![photo.png](https://cdn.example.com/photo.png) here'')] \<and>
   records (snd (uploadItem uploadHost 0 noteA openState))
     = JArray [UploadRecord ''photo.png'' ''img/photo.png'' ''https://cdn.example.com/photo.png''
                 ''https://cdn.example.com/photo.png'' ''a.md'' ''a.md''
                 ''2026-01-01T00:00:00.000Z'']"
proof -
  have a: "fst (uploadImageFile uploadHost cdnSettings (Some photoPng) ''https://cdn.example.com'')
             = UploadSuccess ''https://cdn.example.com/photo.png''"
    by code_simp
  from end_to_end_upload have b:
    "leaves (snd (uploadItem uploadHost 0 noteA openState))
       = [(Some noteA, ''see ![photo.png](https://cdn.example.com/photo.png) here'')] \<and>
     records (snd (uploadItem uploadHost 0 noteA openState))
       = JArray [UploadRecord ''photo.png'' ''img/photo.png''
                   ''https://cdn.example.com/photo.png'' ''https://cdn.example.com/photo.png''
                   ''a.md'' ''a.md'' ''2026-01-01T00:00:00.000Z'']"
    by simp
  show ?thesis
    using upload_public_url [of uploadHost cdnSettings "Some photoPng"
        "''https://cdn.example.com''" "''https://cdn.example.com/photo.png''"] a b
    by simp
qed

text \<open>
  C6. \<^verbatim>\<open>resolveBaseUrl\<close> returns the custom domain whenever it is non-empty, sending
  nothing; otherwise, if the account id, the token or the bucket name is empty, it
  returns none and sends nothing; otherwise it sends exactly the managed-domain request
  and returns none exactly when that query fails.
\<close>

theorem resolveBaseUrl_cases:
  "(customDomain s \<noteq> [] \<longrightarrow> resolveBaseUrl s net = (Some (customDomain s), [])) \<and>
   (customDomain s = [] \<and> (accountId s = [] \<or> r2Token s = [] \<or> bucketName s = []) \<longrightarrow>
      resolveBaseUrl s net = (None, [])) \<and>
   (customDomain s = [] \<and> accountId s \<noteq> [] \<and> r2Token s \<noteq> [] \<and> bucketName s \<noteq> [] \<longrightarrow>
      snd (resolveBaseUrl s net)
        = [managedDomainRequest (accountId s) (r2Token s) (bucketName s)] \<and>
      (fst (resolveBaseUrl s net) = None \<longleftrightarrow>
         managedQueryFails
           (net (managedDomainRequest (accountId s) (r2Token s) (bucketName s)))))"
  by (auto simp: resolveBaseUrl_def fetchManagedDomain_def managedQueryFails_def Let_def
      split: sum.splits option.splits)

theorem resolveBaseUrl_cases_witness:
  "resolveBaseUrl managedSettings managedNet
     = (Some ''https://pub-1.r2.dev'', [managedDomainRequest ''acc'' ''tok'' ''pics'']) \<and>
   \<not> managedQueryFails (managedNet (managedDomainRequest ''acc'' ''tok'' ''pics''))"
  using resolveBaseUrl_cases [of managedSettings managedNet]
  by (simp add: managedSettings_def managedNet_def resolveBaseUrl_def fetchManagedDomain_def
      managedQueryFails_def)

text \<open>
  C7, as amended. A destination path at which the vault has nothing is returned
  unchanged. A path at which something exists is replaced by a different path: the
  path with \<^verbatim>\<open>-\<close> and the first eight characters of a random UUID put before its last
  dot, or at its end when it has no dot. Whether the vault has something at the new
  path is not looked at.
\<close>

theorem uniquePath_cases:
  "(getAbstractFileByPath v p = None \<longrightarrow> uniquePath h v p = p) \<and>
   (getAbstractFileByPath v p \<noteq> None \<longrightarrow>
      uniquePath h v p \<noteq> p \<and>
      (\<exists>base ext.
         p = base @ ext \<and>
         (ext = [] \<and> CHR ''.'' \<notin> set p \<or>
          ext \<noteq> [] \<and> hd ext = CHR ''.'' \<and> CHR ''.'' \<notin> set (tl ext)) \<and>
         uniquePath h v p = base @ ''-'' @ take 8 (randomUUID h) @ ext))"
proof -
  have a: "getAbstractFileByPath v p = None \<longrightarrow> uniquePath h v p = p"
    by (simp add: uniquePath_def)
  have b: "\<exists>base ext.
         p = base @ ext \<and>
         (ext = [] \<and> CHR ''.'' \<notin> set p \<or>
          ext \<noteq> [] \<and> hd ext = CHR ''.'' \<and> CHR ''.'' \<notin> set (tl ext)) \<and>
         uniquePath h v p = base @ ''-'' @ take 8 (randomUUID h) @ ext"
    if ex: "getAbstractFileByPath v p \<noteq> None"
    using lastIndexOf_cases [of "CHR ''.''" p]
  proof
    assume n: "CHR ''.'' \<notin> set p \<and> lastIndexOf p CHR ''.'' = - 1"
    with ex have "p = p @ [] \<and> ([] = ([]::string) \<and> CHR ''.'' \<notin> set p) \<and>
          uniquePath h v p = p @ ''-'' @ take 8 (randomUUID h) @ []"
      by (auto simp: uniquePath_def)
    then show ?thesis by blast
  next
    assume "\<exists>k < length p. lastIndexOf p CHR ''.'' = int k \<and> p ! k = CHR ''.'' \<and>
              CHR ''.'' \<notin> set (drop (Suc k) p)"
    then obtain k where k: "k < length p" "lastIndexOf p CHR ''.'' = int k"
      "p ! k = CHR ''.''" "CHR ''.'' \<notin> set (drop (Suc k) p)" by blast
    from k(1) have d: "drop k p = p ! k # drop (Suc k) p"
      by (simp add: Cons_nth_drop_Suc)
    have e1: "p = take k p @ drop k p" by simp
    from d k have e2: "drop k p \<noteq> [] \<and> hd (drop k p) = CHR ''.'' \<and>
                       CHR ''.'' \<notin> set (tl (drop k p))"
      by simp
    from ex k(2) have e3: "uniquePath h v p = take k p @ ''-'' @ take 8 (randomUUID h) @ drop k p"
      by (auto simp: uniquePath_def)
    from e1 e2 e3 have "p = take k p @ drop k p \<and>
          (drop k p \<noteq> [] \<and> hd (drop k p) = CHR ''.'' \<and> CHR ''.'' \<notin> set (tl (drop k p))) \<and>
          uniquePath h v p = take k p @ ''-'' @ take 8 (randomUUID h) @ drop k p"
      by blast
    then show ?thesis by blast
  qed
  have c: "uniquePath h v p \<noteq> p" if ex: "getAbstractFileByPath v p \<noteq> None"
  proof -
    from b [OF ex] obtain base ext where
      "p = base @ ext" "uniquePath h v p = base @ ''-'' @ take 8 (randomUUID h) @ ext" by blast
    then have "length (uniquePath h v p) \<noteq> length p" by simp
    then show ?thesis by auto
  qed
  from a b c show ?thesis by blast
qed

theorem uniquePath_cases_witness:
  "getAbstractFileByPath [(''cat.jpg'', FileNode catJpg)] ''cat.jpg'' \<noteq> None \<and>
   uniquePath quietHost [(''cat.jpg'', FileNode catJpg)] ''cat.jpg'' = ''cat-123e4567.jpg'' \<and>
   getAbstractFileByPath [(''cat.jpg'', FileNode catJpg)] ''dog.jpg'' = None \<and>
   uniquePath quietHost [(''cat.jpg'', FileNode catJpg)] ''dog.jpg'' = ''dog.jpg''"
  using uniquePath_cases [of "[(''cat.jpg'', FileNode catJpg)]" "''cat.jpg''" quietHost]
    uniquePath_cases [of "[(''cat.jpg'', FileNode catJpg)]" "''dog.jpg''" quietHost]
  by (simp add: getAbstractFileByPath_def uniquePath_def lastIndexOf_def quietHost_def)

text \<open>
  The claim as stated has the new path free of collisions. Here the vault already has
  a file at the suffixed path, and that path is returned.
\<close>

theorem uniquePath_collision_counterexample:
  "getAbstractFileByPath crowdedVault ''cat.jpg'' \<noteq> None \<and>
   uniquePath quietHost crowdedVault ''cat.jpg'' = ''cat-123e4567.jpg'' \<and>
   getAbstractFileByPath crowdedVault (uniquePath quietHost crowdedVault ''cat.jpg'')
     = Some (FileNode catSuffixedJpg)"
  by (simp add: getAbstractFileByPath_def uniquePath_def lastIndexOf_def quietHost_def
      crowdedVault_def)

text \<open>
  C8, as amended. In a download whose fetch succeeded, a failure to write the file, a
  file that is not there after the write, and a failure to rewrite the document each
  end with the item failed and carrying the message, as a transport error does. When
  these steps succeed, in a download and in an upload alike, the item ends done with no
  error whatever the record store does: the call that appends the record is not
  awaited, and when its write fails the records file stays as it was and the error is
  an unhandled rejection.
\<close>

theorem persistence_failures:
  "(fetched h st item activeFile resp ensured savePath \<and>
    createBinary h ensured savePath (respArrayBuffer resp) = Inl e \<longrightarrow>
      status (remoteItemAt (doDownload h item activeFile st) item) = Failed \<and>
      error (remoteItemAt (doDownload h item activeFile st) item) = Some e) \<and>
   (fetched h st item activeFile resp ensured savePath \<and>
    createBinary h ensured savePath (respArrayBuffer resp) = Inr written \<and>
    (\<forall>f. getAbstractFileByPath written savePath \<noteq> Some (FileNode f)) \<longrightarrow>
      status (remoteItemAt (doDownload h item activeFile st) item) = Failed \<and>
      error (remoteItemAt (doDownload h item activeFile st) item) = Some ''File not saved'') \<and>
   (fetched h st item activeFile resp ensured savePath \<and>
    createBinary h ensured savePath (respArrayBuffer resp) = Inr written \<and>
    getAbstractFileByPath written savePath = Some (FileNode saved) \<and>
    rewriteEditor h (leaves st) activeFile (fullMatch (remoteItemAt st item))
      (''![['' @ name saved @ '']]'') = Inl e \<longrightarrow>
      status (remoteItemAt (doDownload h item activeFile st) item) = Failed \<and>
      error (remoteItemAt (doDownload h item activeFile st) item) = Some e) \<and>
   (fetched h st item activeFile resp ensured savePath \<and>
    createBinary h ensured savePath (respArrayBuffer resp) = Inr written \<and>
    getAbstractFileByPath written savePath = Some (FileNode saved) \<and>
    rewriteEditor h (leaves st) activeFile (fullMatch (remoteItemAt st item))
      (''![['' @ name saved @ '']]'') = Inr rewritten \<longrightarrow>
      status (remoteItemAt (doDownload h item activeFile st) item) = Done \<and>
      error (remoteItemAt (doDownload h item activeFile st) item) = None \<and>
      ((\<forall>text. adapterWriteError h text \<noteq> None) \<longrightarrow>
         recordsFile (doDownload h item activeFile st) = recordsFile st \<and>
         length (rejections (doDownload h item activeFile st))
           = Suc (length (rejections st)))) \<and>
   (fst (uploadImageFile h (settings st) (imageFile (imageItemAt st item)) baseUrl)
      = UploadSuccess u \<and>
    rewriteEditor h (leaves st) activeFile (fullMatch (imageItemAt st item))
      (''!['' @ fileName (imageItemAt st item) @ '']('' @ u @ '')'') = Inr rewritten \<longrightarrow>
      fst (doUpload h item activeFile baseUrl st) = None \<and>
      status (imageItemAt (snd (doUpload h item activeFile baseUrl st)) item) = Done \<and>
      error (imageItemAt (snd (doUpload h item activeFile baseUrl st)) item) = None \<and>
      ((\<forall>text. adapterWriteError h text \<noteq> None) \<longrightarrow>
         recordsFile (snd (doUpload h item activeFile baseUrl st)) = recordsFile st \<and>
         length (rejections (snd (doUpload h item activeFile baseUrl st)))
           = Suc (length (rejections st))))"
  using download_write_fails [of h st item activeFile resp ensured savePath e]
    download_not_saved [of h st item activeFile resp ensured savePath written]
    download_rewrite_fails [of h st item activeFile resp ensured savePath written saved e]
    download_done [of h st item activeFile resp ensured savePath written saved rewritten]
    upload_done [of h st item baseUrl u activeFile rewritten]
  by blast

theorem persistence_failures_witness:
  "fetched uploadHost remoteState 0 noteA okResponse [] ''cat.jpg'' \<and>
   createBinary uploadHost [] ''cat.jpg'' (respArrayBuffer okResponse) = Inl ''read-only'' \<and>
   status (remoteItemAt (doDownload uploadHost 0 noteA remoteState) 0) = Failed \<and>
   error (remoteItemAt (doDownload uploadHost 0 noteA remoteState) 0) = Some ''read-only'' \<and>
   fst (uploadImageFile fullDiskHost (settings openState) (imageFile (imageItemAt openState 0))
          ''https://cdn.example.com'') = UploadSuccess ''https://cdn.example.com/photo.png'' \<and>
   adapterWriteError fullDiskHost = (\<lambda>text. Some ''disk full'') \<and>
   status (imageItemAt (snd (doUpload fullDiskHost 0 noteA ''https://cdn.example.com'' openState)) 0)
     = Done \<and>
   recordsFile (snd (doUpload fullDiskHost 0 noteA ''https://cdn.example.com'' openState))
     = recordsFile openState \<and>
   length (rejections (snd (doUpload fullDiskHost 0 noteA ''https://cdn.example.com'' openState)))
     = Suc (length (rejections openState))"
proof -
  have a: "fetched uploadHost remoteState 0 noteA okResponse [] ''cat.jpg''"
    by code_simp
  have b: "createBinary uploadHost [] ''cat.jpg'' (respArrayBuffer okResponse) = Inl ''read-only''"
    by (simp add: uploadHost_def quietHost_def)
  have c: "fst (uploadImageFile fullDiskHost (settings openState)
                  (imageFile (imageItemAt openState 0)) ''https://cdn.example.com'')
             = UploadSuccess ''https://cdn.example.com/photo.png''"
    by code_simp
  have d: "rewriteEditor fullDiskHost (leaves openState) noteA (fullMatch (imageItemAt openState 0))
             (''!['' @ fileName (imageItemAt openState 0) @ '']('' @
                ''https://cdn.example.com/photo.png'' @ '')'')
           = Inr [(Some noteA, ''see ![photo.png](https://cdn.example.com/photo.png) here'')]"
    by code_simp
  have e: "adapterWriteError fullDiskHost = (\<lambda>text. Some ''disk full'')"
    by (simp add: fullDiskHost_def)
  show ?thesis
    using persistence_failures [of uploadHost remoteState 0 noteA okResponse "[]" "''cat.jpg''"
        "''read-only''"]
      persistence_failures [where h = fullDiskHost and st = openState and item = 0
        and activeFile = noteA and baseUrl = "''https://cdn.example.com''"
        and u = "''https://cdn.example.com/photo.png''"
        and rewritten = "[(Some noteA, ''see ![photo.png](https://cdn.example.com/photo.png) here'')]"]
      a b c d e
    by simp
qed

text \<open>
  The claim as stated has a failed record-log write end in the failed status. Here the
  upload succeeds and the write of the records file fails; the item is done and has no
  error message.
\<close>

theorem record_write_failure_counterexample:
  "fst (uploadImageFile fullDiskHost (settings openState) (imageFile (imageItemAt openState 0))
          ''https://cdn.example.com'') = UploadSuccess ''https://cdn.example.com/photo.png'' \<and>
   fst (addUpload fullDiskHost ''photo.png'' ''img/photo.png''
          ''https://cdn.example.com/photo.png'' ''https://cdn.example.com/photo.png''
          ''a.md'' ''a.md'' openState) = Some ''disk full'' \<and>
   status (imageItemAt (snd (doUpload fullDiskHost 0 noteA ''https://cdn.example.com'' openState)) 0)
     = Done \<and>
   error (imageItemAt (snd (doUpload fullDiskHost 0 noteA ''https://cdn.example.com'' openState)) 0)
     = None \<and>
   recordsFile (snd (doUpload fullDiskHost 0 noteA ''https://cdn.example.com'' openState)) = None \<and>
   rejections (snd (doUpload fullDiskHost 0 noteA ''https://cdn.example.com'' openState))
     = [''disk full'']"
  by code_simp

text \<open>
  C9. When the upload of an item fails, \<^verbatim>\<open>doUpload\<close> ends normally with the item
  failed and carrying the error message; the text of the editors, the record cache,
  the records file, the timers and the tracked list are as before.
\<close>

theorem upload_failure_atomic:
  assumes "fst (uploadImageFile h (settings st) (imageFile (imageItemAt st item)) baseUrl)
             = UploadFailure e"
  shows "fst (doUpload h item activeFile baseUrl st) = None \<and>
         status (imageItemAt (snd (doUpload h item activeFile baseUrl st)) item) = Failed \<and>
         error (imageItemAt (snd (doUpload h item activeFile baseUrl st)) item) = Some e \<and>
         leaves (snd (doUpload h item activeFile baseUrl st)) = leaves st \<and>
         records (snd (doUpload h item activeFile baseUrl st)) = records st \<and>
         recordsFile (snd (doUpload h item activeFile baseUrl st)) = recordsFile st \<and>
         timers (snd (doUpload h item activeFile baseUrl st)) = timers st \<and>
         items (snd (doUpload h item activeFile baseUrl st)) = items st"
proof -
  obtain r reqs where u: "uploadImageFile h (settings st) (imageFile (imageItemAt st item)) baseUrl
      = (r, reqs)" by (cases "uploadImageFile h (settings st) (imageFile (imageItemAt st item)) baseUrl")
  with assms have r: "r = UploadFailure e" by simp
  show ?thesis
    by (simp add: doUpload_def setStatus_def setError_def Let_def u r)
qed

theorem upload_failure_atomic_witness:
  "fst (uploadImageFile quietHost (settings openState) (imageFile (imageItemAt openState 0))
          ''https://cdn.example.com'') = UploadFailure ''offline'' \<and>
   status (imageItemAt (snd (doUpload quietHost 0 noteA ''https://cdn.example.com'' openState)) 0)
     = Failed \<and>
   error (imageItemAt (snd (doUpload quietHost 0 noteA ''https://cdn.example.com'' openState)) 0)
     = Some ''offline'' \<and>
   leaves (snd (doUpload quietHost 0 noteA ''https://cdn.example.com'' openState))
     = [(Some noteA, ''see ![[photo.png]] here'')] \<and>
   records (snd (doUpload quietHost 0 noteA ''https://cdn.example.com'' openState)) = JNull \<and>
   recordsFile (snd (doUpload quietHost 0 noteA ''https://cdn.example.com'' openState)) = None"
proof -
  have a: "fst (uploadImageFile quietHost (settings openState) (imageFile (imageItemAt openState 0))
          ''https://cdn.example.com'') = UploadFailure ''offline''"
    by code_simp
  have b: "leaves openState = [(Some noteA, ''see ![[photo.png]] here'')] \<and>
           records openState = JNull \<and> recordsFile openState = None"
    by (simp add: openState_def emptyState_def)
  show ?thesis
    using upload_failure_atomic [OF a, of noteA] a b by simp
qed

text \<open>
  C10. On the first access to the record store, when the records file is missing or
  its text is not JSON, \<^verbatim>\<open>load\<close> returns the empty array and raises nothing. After
  any appends from there, the cache holds exactly the records appended, and an append
  whose write succeeds leaves a file that is the text of exactly these records:
  whatever the file held before is replaced.
\<close>

theorem unreadable_store_replaced:
  assumes first: "records st = JNull"
    and unreadable:
      "recordsFile st = None \<or> (\<exists>raw. recordsFile st = Some raw \<and> JSON_parse h raw = None)"
  shows "load h st = (JArray [], st\<lparr>records := JArray []\<rparr>) \<and>
         records (appendAll h (mks @ [mk]) st) = stamped h (mks @ [mk]) \<and>
         (adapterWriteError h (JSON_stringify h (stamped h (mks @ [mk]))) = None \<longrightarrow>
            fst (addRecord h mk (appendAll h mks st)) = None \<and>
            recordsFile (appendAll h (mks @ [mk]) st)
              = Some (JSON_stringify h (stamped h (mks @ [mk]))))"
proof -
  have w: "fst (addRecord h mk (appendAll h mks st)) = None \<and>
           recordsFile (appendAll h (mks @ [mk]) st)
              = Some (JSON_stringify h (stamped h (mks @ [mk])))"
    if ok: "adapterWriteError h (JSON_stringify h (stamped h (mks @ [mk]))) = None"
  proof (cases mks rule: rev_cases)
    case Nil
    with ok addRecord_unreadable [OF first unreadable, of mk] show ?thesis
      by (simp add: appendAll_def stamped_def)
  next
    case (snoc ms m)
    from appendAll_records [OF first unreadable, of ms m]
    have r: "records (appendAll h mks st) = JArray (map (\<lambda>mk. mk (toISOString h)) mks)"
      by (simp add: snoc stamped_def)
    from ok addRecord_array [OF r, of h mk] show ?thesis
      unfolding appendAll_snoc [of h mks mk st] by (simp add: stamped_def)
  qed
  from load_unreadable [OF first unreadable] appendAll_records [OF first unreadable] w
  show ?thesis by blast
qed

theorem unreadable_store_replaced_witness:
  "records brokenFileState = JNull \<and>
   recordsFile brokenFileState = Some ''{not json'' \<and>
   JSON_parse quietHost ''{not json'' = None \<and>
   fst (load quietHost brokenFileState) = JArray [] \<and>
   records (snd (addRecord quietHost photoUpload brokenFileState))
     = JArray [photoUpload ''2026-01-01T00:00:00.000Z''] \<and>
   recordsFile (snd (addRecord quietHost photoUpload brokenFileState)) = Some ''records: 1''"
proof -
  have a: "records brokenFileState = JNull"
    by (simp add: brokenFileState_def emptyState_def)
  have f: "recordsFile brokenFileState = Some ''{not json''"
    by (simp add: brokenFileState_def)
  have g: "JSON_parse quietHost ''{not json'' = None"
    by (simp add: quietHost_def)
  from f g have b: "recordsFile brokenFileState = None \<or>
           (\<exists>raw. recordsFile brokenFileState = Some raw \<and> JSON_parse quietHost raw = None)"
    by simp
  have e: "toISOString quietHost = ''2026-01-01T00:00:00.000Z''"
    by (simp add: quietHost_def)
  have c: "JSON_stringify quietHost (JArray [r]) = ''records: 1''" for r
    by (simp add: quietHost_def showJson_def digitChar_def)
  have d: "adapterWriteError quietHost ''records: 1'' = None"
    by (simp add: quietHost_def)
  show ?thesis
    using unreadable_store_replaced [OF a b, of "[]" photoUpload]
    by (simp add: appendAll_def stamped_def a c d e f g)
qed

end
